theory Spec2Isabelle
  imports Complex_Main
begin

section \<open>JavaScript values\<close>

text \<open>
  The data-resolution pipeline of \<^verbatim>\<open>src/script.js\<close> (lines 1586--2900; the copy in
  \<^verbatim>\<open>src/unnamed/part_000\<close> differs only in the proxy URL and in comments) works on
  JSON scalars. A JavaScript number is an IEEE-754 double: a finite double is a rational,
  so a finite number is modelled by its exact value. The sign of zero is not observable
  by any operation used here (\<^verbatim>\<open>toFixed\<close>, truthiness, \<^verbatim>\<open>String\<close>). A string is held
  as the bytes of its UTF-8 encoding: concatenation, equality and emptiness are those of
  the JavaScript string.

  Reading a property of a plain object also reaches the members the object inherits
  from \<^verbatim>\<open>Object.prototype\<close> (\<^verbatim>\<open>attrs['constructor']\<close> is the function \<^verbatim>\<open>Object\<close>):
  \<open>JInherited name\<close> is the inherited member of that name, a function or, for
  \<^verbatim>\<open>__proto__\<close>, the prototype object itself.
\<close>

datatype jsnum = Fin rat | NaN | PosInf | NegInf

datatype jsval =
  JUndefined | JNull | JBool bool | JNum jsnum | JStr string | JInherited string

text \<open>
  Four conversions are the host's, and are parameters of the model; every theorem below
  holds for all of them. ECMA-262 leaves two to the host where the binary encoding
  matters: \<^verbatim>\<open>Number::toString\<close> of a number that is not a small integer (the shortest
  digit string that reads back as the same double, whose last digit the standard does
  not fix) and \<^verbatim>\<open>StringToNumber\<close> (parsing and rounding a numeric literal). The third is
  \<^verbatim>\<open>String.prototype.toLowerCase\<close> on a string with a character outside ASCII, which
  follows the Unicode case tables. The fourth is the text \<^verbatim>\<open>String\<close> gives for a member
  inherited from \<^verbatim>\<open>Object.prototype\<close> (the source text of a function).
\<close>

record runtime =
  shortestDigits :: "rat \<Rightarrow> string"
  stringToNumber :: "string \<Rightarrow> jsnum"
  unicodeLowerCase :: "string \<Rightarrow> string"
  inheritedToString :: "string \<Rightarrow> string"

text \<open>
  \<^verbatim>\<open>String.prototype.toLowerCase\<close>. On a string of ASCII characters only (every byte
  below 128) it maps \<open>A\<close>--\<open>Z\<close> to \<open>a\<close>--\<open>z\<close> and keeps every other character; any other
  string is lowered by the host.
\<close>

definition lowerChar :: "char \<Rightarrow> char" where
  "lowerChar c =
     (case map_of (zip ''ABCDEFGHIJKLMNOPQRSTUVWXYZ'' ''abcdefghijklmnopqrstuvwxyz'') c of
        Some l \<Rightarrow> l
      | None \<Rightarrow> c)"

definition isAscii :: "string \<Rightarrow> bool" where
  "isAscii s = list_all (\<lambda>c. (of_char c :: nat) < 128) s"

definition toLowerCase :: "runtime \<Rightarrow> string \<Rightarrow> string" where
  "toLowerCase rt s = (if isAscii s then map lowerChar s else unicodeLowerCase rt s)"

text \<open>Decimal digits of a natural number.\<close>

definition digitChar :: "nat \<Rightarrow> char" where
  "digitChar d = ''0123456789'' ! d"

fun natToString :: "nat \<Rightarrow> string" where
  "natToString n =
     (if n < 10 then [digitChar n]
      else natToString (n div 10) @ [digitChar (n mod 10)])"

declare natToString.simps [simp del]

text \<open>
  \<^verbatim>\<open>Number::toString\<close>: an integer of magnitude at most \<open>2^53\<close> prints as its digits;
  every other finite value is the host's shortest round-trip string.
\<close>

definition numberToString :: "runtime \<Rightarrow> jsnum \<Rightarrow> string" where
  "numberToString rt x =
     (case x of
        NaN \<Rightarrow> ''NaN''
      | PosInf \<Rightarrow> ''Infinity''
      | NegInf \<Rightarrow> ''-Infinity''
      | Fin r \<Rightarrow>
          if r = of_int \<lfloor>r\<rfloor> \<and> \<bar>r\<bar> \<le> 2 ^ 53
          then (if r < 0 then ''-'' else '''') @ natToString (nat \<bar>\<lfloor>r\<rfloor>\<bar>)
          else shortestDigits rt r)"

text \<open>\<^verbatim>\<open>ToString\<close>, as a template literal \<^verbatim>\<open>`${v}`\<close> applies it.\<close>

fun toString :: "runtime \<Rightarrow> jsval \<Rightarrow> string" where
  "toString rt JUndefined = ''undefined''"
| "toString rt JNull = ''null''"
| "toString rt (JBool b) = (if b then ''true'' else ''false'')"
| "toString rt (JNum x) = numberToString rt x"
| "toString rt (JStr s) = s"
| "toString rt (JInherited name) = inheritedToString rt name"

text \<open>\<^verbatim>\<open>ToBoolean\<close>: what \<^verbatim>\<open>v ? a : b\<close>, \<^verbatim>\<open>v || d\<close> and \<^verbatim>\<open>filter(Boolean)\<close> test.\<close>

fun truthy :: "jsval \<Rightarrow> bool" where
  "truthy JUndefined = False"
| "truthy JNull = False"
| "truthy (JBool b) = b"
| "truthy (JNum x) = (case x of Fin r \<Rightarrow> r \<noteq> 0 | NaN \<Rightarrow> False | PosInf \<Rightarrow> True | NegInf \<Rightarrow> True)"
| "truthy (JStr s) = (s \<noteq> [])"
| "truthy (JInherited name) = True"

text \<open>\<^verbatim>\<open>a || d\<close>.\<close>

definition orElse :: "jsval \<Rightarrow> jsval \<Rightarrow> jsval" where
  "orElse a d = (if truthy a then a else d)"

text \<open>
  \<^verbatim>\<open>Number(v)\<close>. An object is first turned into a primitive: \<^verbatim>\<open>valueOf\<close> of an inherited
  member is the member itself, so its \<^verbatim>\<open>toString\<close> text is what gets parsed.
\<close>

fun toNumber :: "runtime \<Rightarrow> jsval \<Rightarrow> jsnum" where
  "toNumber rt JUndefined = NaN"
| "toNumber rt JNull = Fin 0"
| "toNumber rt (JBool b) = Fin (if b then 1 else 0)"
| "toNumber rt (JNum x) = x"
| "toNumber rt (JStr s) = stringToNumber rt s"
| "toNumber rt (JInherited name) = stringToNumber rt (inheritedToString rt name)"

text \<open>
  \<^verbatim>\<open>Number.prototype.toFixed(f)\<close> (ECMA-262, 21.1.3.3) for \<open>f \<le> 100\<close>: a value that is not
  finite prints by name; the sign is split off; a magnitude of \<open>10^21\<close> or more prints as
  \<^verbatim>\<open>String\<close> does; otherwise \<open>n\<close> is the integer nearest to \<open>x * 10^f\<close> (the larger one on
  a tie), padded with zeros to at least \<open>f + 1\<close> digits, with the point before the last
  \<open>f\<close> digits.
\<close>

definition toFixed :: "runtime \<Rightarrow> nat \<Rightarrow> jsnum \<Rightarrow> string" where
  "toFixed rt f x =
     (case x of
        NaN \<Rightarrow> ''NaN''
      | PosInf \<Rightarrow> ''Infinity''
      | NegInf \<Rightarrow> ''-Infinity''
      | Fin r \<Rightarrow>
          (let s = (if r < 0 then ''-'' else '''');
               a = \<bar>r\<bar>
           in if 10 ^ 21 \<le> a then s @ numberToString rt (Fin a)
              else
                (let n = nat \<lfloor>a * 10 ^ f + 1 / 2\<rfloor>;
                     m = natToString n
                 in if f = 0 then s @ m
                    else
                      (let m' = (if length m \<le> f
                                 then replicate (f + 1 - length m) (CHR ''0'') @ m else m);
                           k = length m'
                       in s @ take (k - f) m' @ ''.'' @ drop (k - f) m'))))"

text \<open>
  \<^verbatim>\<open>Array.prototype.join(sep)\<close>: \<^verbatim>\<open>undefined\<close> and \<^verbatim>\<open>null\<close> elements print as the
  empty string, every other element as \<^verbatim>\<open>String\<close> prints it.
\<close>

definition elementString :: "runtime \<Rightarrow> jsval \<Rightarrow> string" where
  "elementString rt v = (if v = JUndefined \<or> v = JNull then '''' else toString rt v)"

fun join :: "runtime \<Rightarrow> string \<Rightarrow> jsval list \<Rightarrow> string" where
  "join rt sep [] = ''''"
| "join rt sep [v] = elementString rt v"
| "join rt sep (v # w # ws) = elementString rt v @ sep @ join rt sep (w # ws)"

section \<open>Field normalization\<close>

text \<open>
  An attribute bag is a plain object (what \<^verbatim>\<open>JSON.parse\<close> or \<^verbatim>\<open>{}\<close> creates): its own
  properties in the order \<^verbatim>\<open>Object.keys\<close> lists them, with \<^verbatim>\<open>Object.prototype\<close> as its
  prototype.
\<close>

type_synonym bag = "(string \<times> jsval) list"

definition Object_keys :: "bag \<Rightarrow> string list" where
  "Object_keys attrs = map fst attrs"

text \<open>The property names of \<^verbatim>\<open>Object.prototype\<close> (ECMA-262, 20.1.3 and B.2.2).\<close>

definition Object_prototype_names :: "string list" where
  "Object_prototype_names =
     [''constructor'', ''hasOwnProperty'', ''isPrototypeOf'', ''propertyIsEnumerable'',
      ''toLocaleString'', ''toString'', ''valueOf'', ''__proto__'', ''__defineGetter__'',
      ''__defineSetter__'', ''__lookupGetter__'', ''__lookupSetter__'']"

text \<open>
  \<^verbatim>\<open>attrs[key]\<close>: the own property of that name; without one, the member inherited from
  \<^verbatim>\<open>Object.prototype\<close>; without that, \<^verbatim>\<open>undefined\<close>.
\<close>

definition lookup :: "bag \<Rightarrow> string \<Rightarrow> jsval" where
  "lookup attrs key =
     (case map_of attrs key of
        Some v \<Rightarrow> v
      | None \<Rightarrow> if key \<in> set Object_prototype_names then JInherited key else JUndefined)"

text \<open>\<^verbatim>\<open>v !== undefined && v !== null && v !== ''\<close>\<close>

definition present :: "jsval \<Rightarrow> bool" where
  "present v = (v \<noteq> JUndefined \<and> v \<noteq> JNull \<and> v \<noteq> JStr '''')"

text \<open>The inner loop of \<^verbatim>\<open>getField\<close>: \<^verbatim>\<open>for (const actual of Object.keys(attrs))\<close>.\<close>

fun scanKeys :: "runtime \<Rightarrow> bag \<Rightarrow> string \<Rightarrow> string list \<Rightarrow> jsval option" where
  "scanKeys rt attrs lower [] = None"
| "scanKeys rt attrs lower (actual # rest) =
     (if toLowerCase rt actual = lower \<and> present (lookup attrs actual)
      then Some (lookup attrs actual)
      else scanKeys rt attrs lower rest)"

text \<open>
  \<^verbatim>\<open>getField(attrs, keys, fallback = null)\<close>: the outer loop \<^verbatim>\<open>for (const key of keys)\<close>,
  then \<^verbatim>\<open>return fallback\<close>. The default value of the parameter replaces a fallback that
  is omitted or \<^verbatim>\<open>undefined\<close>.
\<close>

fun getField :: "runtime \<Rightarrow> bag \<Rightarrow> string list \<Rightarrow> jsval \<Rightarrow> jsval" where
  "getField rt attrs [] fallback = (if fallback = JUndefined then JNull else fallback)"
| "getField rt attrs (key # keys) fallback =
     (if present (lookup attrs key) then lookup attrs key
      else (case scanKeys rt attrs (toLowerCase rt key) (Object_keys attrs) of
              Some val \<Rightarrow> val
            | None \<Rightarrow> getField rt attrs keys fallback))"

text \<open>\<^verbatim>\<open>FIELD_MAP\<close>: the candidate source field names of each concept, in order of preference.\<close>

definition FIELD_MAP_owner :: "string list" where
  "FIELD_MAP_owner =
     [''OWNER1'', ''OWNER'', ''OWNER_NAME'', ''NAME'', ''GRANTEE'', ''OWNNAME'', ''ownname'']"

definition FIELD_MAP_situs :: "string list" where
  "FIELD_MAP_situs =
     [''SITUS_ADDR'', ''SITEADDR'', ''SITUS'', ''ADDRESS'', ''PROP_ADDR'', ''ADDR1'', ''addr1'']"

definition FIELD_MAP_city :: "string list" where
  "FIELD_MAP_city = [''SITUS_CITY'', ''CITY'']"

definition FIELD_MAP_state :: "string list" where
  "FIELD_MAP_state = [''SITUS_STATE'', ''STATE'']"

definition FIELD_MAP_zip :: "string list" where
  "FIELD_MAP_zip = [''SITUS_ZIP'', ''ZIP'', ''ZIPCODE'']"

definition FIELD_MAP_assessed :: "string list" where
  "FIELD_MAP_assessed = [''TOTALVALUE'', ''TOTAL_VALUE'', ''ASSESSED'', ''ASSESSED_VALUE'']"

definition FIELD_MAP_land :: "string list" where
  "FIELD_MAP_land = [''LANDVALUE'', ''LAND_VALUE'']"

definition FIELD_MAP_improv :: "string list" where
  "FIELD_MAP_improv = [''IMPVALUE'', ''IMP_VALUE'', ''IMPR_VALUE'']"

definition FIELD_MAP_acres :: "string list" where
  "FIELD_MAP_acres = [''ACRES'', ''ACREAGE'']"

definition FIELD_MAP_zoning :: "string list" where
  "FIELD_MAP_zoning = [''ZONING'', ''ZONE'']"

definition FIELD_MAP_yearBuilt :: "string list" where
  "FIELD_MAP_yearBuilt = [''YEARBUILT'', ''YEAR_BUILT'']"

definition FIELD_MAP_parcelId :: "string list" where
  "FIELD_MAP_parcelId =
     [''TAXLOT'', ''PARCEL'', ''PARCEL_ID'', ''ACCTNO'', ''acctno'', ''MAPLOT'', ''maplot'']"

definition FIELD_MAP_taxLot :: "string list" where
  "FIELD_MAP_taxLot = [''MAPTAXLOT'', ''MAP_TAXLOT'', ''TAXLOT'', ''MAPLOT'', ''maplot'']"

definition FIELD_MAP_propType :: "string list" where
  "FIELD_MAP_propType = [''PROPCLASS'', ''PROP_CLASS'', ''PROPERTY_CLASS'']"

definition FIELD_MAP_township :: "string list" where
  "FIELD_MAP_township = [''TOWNSHIP'', ''TWP'']"

definition FIELD_MAP_range :: "string list" where
  "FIELD_MAP_range = [''RANGE'', ''RNG'']"

definition FIELD_MAP_section :: "string list" where
  "FIELD_MAP_section = [''SECTION'', ''SEC'']"

text \<open>
  The normalized Property object. The fields \<^verbatim>\<open>zip\<close>, \<^verbatim>\<open>range\<close> and \<^verbatim>\<open>section\<close> carry a
  suffix (the names are taken in HOL); \<^verbatim>\<open>_rawAttrs\<close> is \<open>rawAttrs\<close>. A field read from
  the bag keeps the bag's value (a string or a number); the derived labels are strings.
\<close>

record property =
  uniqueKey :: string
  owner :: jsval
  situs :: jsval
  city :: jsval
  state :: jsval
  zip_f :: jsval
  fullAddress :: string
  assessed :: jsval
  land :: jsval
  improv :: jsval
  acres :: jsval
  lotSizeLabel :: string
  zoning :: jsval
  yearBuilt :: jsval
  parcelId :: jsval
  taxLot :: jsval
  propType :: jsval
  township :: jsval
  range_f :: jsval
  section_f :: jsval
  trs :: string
  savedAt :: jsval
  rawAttrs :: bag

text \<open>
  \<^verbatim>\<open>fullParts\<close>: the situs, then \<^verbatim>\<open>[city, state].filter(Boolean).join(', ')\<close> when that
  string is not empty, then the zip when it is truthy.
\<close>

definition fullParts :: "runtime \<Rightarrow> jsval \<Rightarrow> jsval \<Rightarrow> jsval \<Rightarrow> jsval \<Rightarrow> jsval list" where
  "fullParts rt situs' city' state' zip' =
     (let cityState = join rt '', '' (filter truthy [city', state'])
      in [situs']
         @ (if cityState \<noteq> [] then [JStr cityState] else [])
         @ (if truthy zip' then [zip'] else []))"

text \<open>\<^verbatim>\<open>normalizeParcel(attrs)\<close>\<close>

definition normalizeParcel :: "runtime \<Rightarrow> bag \<Rightarrow> property" where
  "normalizeParcel rt attrs =
     (let owner' = getField rt attrs FIELD_MAP_owner (JStr ''Unknown Owner'');
          situs' = getField rt attrs FIELD_MAP_situs (JStr ''Address not available'');
          city' = getField rt attrs FIELD_MAP_city (JStr '''');
          state' = getField rt attrs FIELD_MAP_state (JStr ''OR'');
          zip' = getField rt attrs FIELD_MAP_zip (JStr '''');
          assessed' = getField rt attrs FIELD_MAP_assessed JNull;
          land' = getField rt attrs FIELD_MAP_land JNull;
          improv' = getField rt attrs FIELD_MAP_improv JNull;
          acres' = getField rt attrs FIELD_MAP_acres JNull;
          zoning' = getField rt attrs FIELD_MAP_zoning (JStr ''N/A'');
          yearBuilt' = getField rt attrs FIELD_MAP_yearBuilt (JStr ''N/A'');
          parcelId' = getField rt attrs FIELD_MAP_parcelId (JStr ''N/A'');
          taxLot' = getField rt attrs FIELD_MAP_taxLot parcelId';
          propType' = getField rt attrs FIELD_MAP_propType (JStr ''N/A'');
          township' = getField rt attrs FIELD_MAP_township (JStr '''');
          rangeVal = getField rt attrs FIELD_MAP_range (JStr '''');
          section' = getField rt attrs FIELD_MAP_section (JStr '''');
          fullAddress' = join rt '' | '' (fullParts rt situs' city' state' zip');
          lotSizeLabel' =
            (if truthy acres' then toFixed rt 2 (toNumber rt acres') @ '' ac'' else ''N/A'');
          trs' =
            (if truthy township' \<or> truthy rangeVal \<or> truthy section'
             then ''T'' @ toString rt (orElse township' (JStr ''?''))
                  @ '' R'' @ toString rt (orElse rangeVal (JStr ''?''))
                  @ '' S'' @ toString rt (orElse section' (JStr ''?''))
             else ''N/A'');
          uniqueKey' =
            toLowerCase rt (toString rt parcelId' @ ''|'' @ toString rt situs' @ ''|''
                            @ toString rt owner')
      in \<lparr> uniqueKey = uniqueKey',
           owner = owner',
           situs = situs',
           city = city',
           state = state',
           zip_f = zip',
           fullAddress = fullAddress',
           assessed = assessed',
           land = land',
           improv = improv',
           acres = acres',
           lotSizeLabel = lotSizeLabel',
           zoning = zoning',
           yearBuilt = yearBuilt',
           parcelId = parcelId',
           taxLot = taxLot',
           propType = propType',
           township = township',
           range_f = rangeVal,
           section_f = section',
           trs = trs',
           savedAt = JNull,
           rawAttrs = attrs \<rparr>)"

text \<open>\<^verbatim>\<open>buildNAProperty(lat, lng)\<close>: the placeholder for a bare coordinate.\<close>

definition buildNAProperty :: "runtime \<Rightarrow> jsnum \<Rightarrow> jsnum \<Rightarrow> property" where
  "buildNAProperty rt lat lng =
     (let coordLabel = toFixed rt 6 lat @ '', '' @ toFixed rt 6 lng
      in \<lparr> uniqueKey = ''na|'' @ coordLabel,
           owner = JStr ''Owner not available'',
           situs = JStr ''Location in Lane County'',
           city = JStr '''',
           state = JStr ''OR'',
           zip_f = JStr '''',
           fullAddress = ''Coordinates: '' @ coordLabel,
           assessed = JNull,
           land = JNull,
           improv = JNull,
           acres = JNull,
           lotSizeLabel = ''N/A'',
           zoning = JStr ''N/A'',
           yearBuilt = JStr ''N/A'',
           parcelId = JStr ''N/A'',
           taxLot = JStr ''N/A'',
           propType = JStr ''N/A'',
           township = JStr '''',
           range_f = JStr '''',
           section_f = JStr '''',
           trs = ''N/A'',
           savedAt = JNull,
           rawAttrs = [] \<rparr>)"

text \<open>
  The \<^verbatim>\<open>address\<close> object of a reverse-geocode reply; a field the reply lacks is
  \<^verbatim>\<open>undefined\<close>.
\<close>

record address_obj =
  Address :: jsval
  Match_addr :: jsval
  City :: jsval
  Region :: jsval
  Postal :: jsval

text \<open>\<^verbatim>\<open>buildReverseGeocodeProperty(lat, lng, addressObj)\<close>\<close>

definition buildReverseGeocodeProperty ::
  "runtime \<Rightarrow> jsnum \<Rightarrow> jsnum \<Rightarrow> address_obj \<Rightarrow> property" where
  "buildReverseGeocodeProperty rt lat lng addr =
     (let situs' = orElse (orElse (Address addr) (Match_addr addr))
                     (JStr ''Address not available'');
          city' = orElse (City addr) (JStr '''');
          state' = orElse (Region addr) (JStr ''OR'');
          zip' = orElse (Postal addr) (JStr '''');
          fullAddress' = join rt '' | '' (fullParts rt situs' city' state' zip')
      in \<lparr> uniqueKey = ''revgeo|'' @ toString rt situs' @ ''|''
                         @ toFixed rt 6 lat @ '','' @ toFixed rt 6 lng,
           owner = JStr ''Owner not available'',
           situs = situs',
           city = city',
           state = state',
           zip_f = zip',
           fullAddress = fullAddress',
           assessed = JNull,
           land = JNull,
           improv = JNull,
           acres = JNull,
           lotSizeLabel = ''N/A'',
           zoning = JStr ''N/A'',
           yearBuilt = JStr ''N/A'',
           parcelId = JStr ''N/A'',
           taxLot = JStr ''N/A'',
           propType = JStr ''N/A'',
           township = JStr '''',
           range_f = JStr '''',
           section_f = JStr '''',
           trs = ''N/A'',
           savedAt = JNull,
           rawAttrs = [] \<rparr>)"

section \<open>The network\<close>

text \<open>
  A rejected promise carries an error object; the pipeline reads its \<^verbatim>\<open>name\<close> and its
  \<^verbatim>\<open>message\<close>. \<open>JsError name message\<close>.
\<close>

datatype js_error = JsError string string

text \<open>
  What one request asks for: the endpoint and the parameters of the query string. The
  proxied URL of \<^verbatim>\<open>fetchWithTimeout\<close> is a function of these. A taxlot query and a
  candidate search run with a deadline of 8000 ms, a reverse geocode with 7000 ms.
\<close>

datatype request =
  TaxlotQuery string jsnum jsnum
| ReverseGeocode string jsnum jsnum
| FindAddressCandidates string string

text \<open>
  The parsed JSON of a reply, as the pipeline reads it: a polygon geometry has \<^verbatim>\<open>rings\<close>
  (an array of rings, each an array of points, each an array of coordinates); a feature
  has \<^verbatim>\<open>attributes\<close> or \<^verbatim>\<open>properties\<close> and may have a \<^verbatim>\<open>geometry\<close>; a candidate has an
  address, a score and may have a location \<open>(x, y)\<close>; the body may have \<^verbatim>\<open>features\<close>,
  an \<^verbatim>\<open>address\<close> and \<^verbatim>\<open>candidates\<close>. \<open>None\<close> is a key that is missing or \<^verbatim>\<open>null\<close>.
\<close>

record geometry =
  rings :: "jsval list list list option"

record feature =
  attributes :: "bag option"
  properties :: "bag option"
  geometry :: "geometry option"

record raw_candidate =
  c_address :: jsval
  c_score :: jsval
  c_location :: "(jsval \<times> jsval) option"

record json_body =
  features :: "feature list option"
  address :: "address_obj option"
  candidates :: "raw_candidate list option"

text \<open>A \<^verbatim>\<open>Response\<close>: \<^verbatim>\<open>res.ok\<close>, \<^verbatim>\<open>res.status\<close>, and what \<^verbatim>\<open>await res.json()\<close> gives or throws.\<close>

record response =
  ok :: bool
  status :: nat
  json :: "js_error + json_body"

text \<open>
  The world outside: the outcome of a request, given the requests made before it.
  \<open>Inl\<close> is a rejected \<^verbatim>\<open>fetch\<close>: an \<^verbatim>\<open>AbortError\<close> when the deadline aborted it, any
  other error for a transport failure.
\<close>

type_synonym net = "request list \<Rightarrow> request \<Rightarrow> js_error + response"

text \<open>
  \<^verbatim>\<open>fetchWithTimeout\<close>: the outcome of the request and the list of requests made so far,
  this one added. The timer is cleared on both paths and has no other effect.
\<close>

definition fetchWithTimeout ::
  "net \<Rightarrow> request list \<Rightarrow> request \<Rightarrow> (js_error + response) \<times> request list" where
  "fetchWithTimeout net calls rq = (net calls rq, calls @ [rq])"

text \<open>The configuration constants of the script.\<close>

record config =
  TAXLOT_ENDPOINTS :: "string list"
  ESRI_GEOCODE_URL :: string
  OREGON_GEOCODE_URL :: string

definition LANE_TAXLOTS_URL :: string where
  "LANE_TAXLOTS_URL =
     ''https://gis.lanecounty.org/arcgis/rest/services/LaneCounty/Taxlots/MapServer/0''"

definition EUGENE_TAXLOTS_URL :: string where
  "EUGENE_TAXLOTS_URL = ''''"

definition STATEWIDE_TAXLOTS_URL :: string where
  "STATEWIDE_TAXLOTS_URL = ''''"

definition CONFIG :: config where
  "CONFIG =
     \<lparr> TAXLOT_ENDPOINTS =
         filter (\<lambda>u. u \<noteq> []) [LANE_TAXLOTS_URL, EUGENE_TAXLOTS_URL, STATEWIDE_TAXLOTS_URL],
       ESRI_GEOCODE_URL =
         ''https://geocode.arcgis.com/arcgis/rest/services/World/GeocodeServer'',
       OREGON_GEOCODE_URL = '''' \<rparr>"

section \<open>The endpoint sequencer over the taxlot services\<close>

text \<open>\<^verbatim>\<open>err.name === 'AbortError' ? 'timeout' : (err.message || 'network error')\<close>\<close>

fun failureReason :: "js_error \<Rightarrow> string" where
  "failureReason (JsError nm msg) =
     (if nm = ''AbortError'' then ''timeout''
      else if msg \<noteq> [] then msg else ''network error'')"

text \<open>\<^verbatim>\<open>feat.attributes || feat.properties || {}\<close>\<close>

definition attrsOf :: "feature \<Rightarrow> bag" where
  "attrsOf feat =
     (case attributes feat of
        Some a \<Rightarrow> a
      | None \<Rightarrow> (case properties feat of Some p \<Rightarrow> p | None \<Rightarrow> []))"

text \<open>
  The loop of \<^verbatim>\<open>tryIdentifyFromTaxlots\<close> over the endpoints that are left, with the
  \<^verbatim>\<open>errors\<close> array and the requests made so far. A rejected fetch and a rejected
  \<^verbatim>\<open>res.json()\<close> land in the \<^verbatim>\<open>catch\<close>; a status that is not ok and an empty feature list
  push their own reason; the first feature of a reply that has one is the result.
\<close>

fun taxlotsLoop ::
  "runtime \<Rightarrow> net \<Rightarrow> jsnum \<Rightarrow> jsnum \<Rightarrow> string list \<Rightarrow> string list \<Rightarrow> request list
     \<Rightarrow> (property \<times> geometry option) option \<times> string list \<times> request list" where
  "taxlotsLoop rt net lat lng [] errors calls = (None, errors, calls)"
| "taxlotsLoop rt net lat lng (endpoint # rest) errors calls =
     (case fetchWithTimeout net calls (TaxlotQuery endpoint lat lng) of
        (Inl err, calls') \<Rightarrow>
          taxlotsLoop rt net lat lng rest
            (errors @ [endpoint @ '': '' @ failureReason err]) calls'
      | (Inr res, calls') \<Rightarrow>
          if \<not> ok res then
            taxlotsLoop rt net lat lng rest
              (errors @ [endpoint @ '': HTTP '' @ natToString (status res)]) calls'
          else
            (case json res of
               Inl err \<Rightarrow>
                 taxlotsLoop rt net lat lng rest
                   (errors @ [endpoint @ '': '' @ failureReason err]) calls'
             | Inr js \<Rightarrow>
                 (case features js of
                    Some (feat # others) \<Rightarrow>
                      (Some (normalizeParcel rt (attrsOf feat), geometry feat), errors, calls')
                  | Some [] \<Rightarrow>
                      taxlotsLoop rt net lat lng rest
                        (errors @ [endpoint @ '': no features at this location'']) calls'
                  | None \<Rightarrow>
                      taxlotsLoop rt net lat lng rest
                        (errors @ [endpoint @ '': no features at this location'']) calls')))"

text \<open>
  \<^verbatim>\<open>tryIdentifyFromTaxlots(lat, lng)\<close>: the result (\<open>None\<close> is \<^verbatim>\<open>null\<close>), the \<^verbatim>\<open>errors\<close>
  array as it stands at the return (what \<^verbatim>\<open>console.warn\<close> prints when all failed), and
  the requests made.
\<close>

definition tryIdentifyFromTaxlots ::
  "runtime \<Rightarrow> net \<Rightarrow> config \<Rightarrow> jsnum \<Rightarrow> jsnum \<Rightarrow> request list
     \<Rightarrow> (property \<times> geometry option) option \<times> string list \<times> request list" where
  "tryIdentifyFromTaxlots rt net cfg lat lng calls =
     taxlotsLoop rt net lat lng (TAXLOT_ENDPOINTS cfg) [] calls"

section \<open>Reverse geocoding\<close>

text \<open>\<^verbatim>\<open>err.name === 'AbortError' ? 'timeout' : err.message\<close>\<close>

fun geocodeReason :: "js_error \<Rightarrow> string" where
  "geocodeReason (JsError nm msg) = (if nm = ''AbortError'' then ''timeout'' else msg)"

text \<open>
  One \<^verbatim>\<open>try\<close> block of \<^verbatim>\<open>tryReverseGeocode\<close>; the script writes it twice, for the Esri
  geocoder and for the Oregon one, with the label and the URL changed.
\<close>

definition reverseAttempt ::
  "runtime \<Rightarrow> net \<Rightarrow> string \<Rightarrow> string \<Rightarrow> jsnum \<Rightarrow> jsnum \<Rightarrow> string list \<Rightarrow> request list
     \<Rightarrow> property option \<times> string list \<times> request list" where
  "reverseAttempt rt net label url lat lng errors calls =
     (case fetchWithTimeout net calls (ReverseGeocode url lat lng) of
        (Inl err, calls') \<Rightarrow> (None, errors @ [label @ '': '' @ geocodeReason err], calls')
      | (Inr res, calls') \<Rightarrow>
          if ok res then
            (case json res of
               Inl err \<Rightarrow> (None, errors @ [label @ '': '' @ geocodeReason err], calls')
             | Inr data \<Rightarrow>
                 (case address data of
                    Some a \<Rightarrow> (Some (buildReverseGeocodeProperty rt lat lng a), errors, calls')
                  | None \<Rightarrow> (None, errors @ [label @ '': no address in response''], calls')))
          else (None, errors @ [label @ '': HTTP '' @ natToString (status res)], calls'))"

text \<open>\<^verbatim>\<open>tryReverseGeocode(lat, lng)\<close>\<close>

definition tryReverseGeocode ::
  "runtime \<Rightarrow> net \<Rightarrow> config \<Rightarrow> jsnum \<Rightarrow> jsnum \<Rightarrow> request list
     \<Rightarrow> property option \<times> string list \<times> request list" where
  "tryReverseGeocode rt net cfg lat lng calls =
     (case reverseAttempt rt net ''Esri reverse'' (ESRI_GEOCODE_URL cfg) lat lng [] calls of
        (Some p, errors, calls') \<Rightarrow> (Some p, errors, calls')
      | (None, errors, calls') \<Rightarrow>
          if OREGON_GEOCODE_URL cfg \<noteq> [] then
            reverseAttempt rt net ''Oregon reverse'' (OREGON_GEOCODE_URL cfg) lat lng
              errors calls'
          else (None, errors, calls'))"

section \<open>Application state and the parcel resolution pipeline\<close>

text \<open>A saved item: \<^verbatim>\<open>{...p, id: Date.now(), savedAt: new Date().toISOString()}\<close>.\<close>

record saved_item = property +
  id_f :: nat

text \<open>
  \<^verbatim>\<open>AppState\<close> (the current property, the saved list and its filtered view, the polygons
  of the highlight layer) and the state of the browser around it: the value stored under
  \<^verbatim>\<open>STORAGE_KEY\<close> in \<^verbatim>\<open>localStorage\<close>, the toasts shown (message and kind), and the
  requests made.
\<close>

record app_state =
  currentProperty :: "property option"
  saved :: "saved_item list"
  filteredSaved :: "saved_item list"
  highlightLayer :: "jsval list list list"
  storage :: "saved_item list option"
  toasts :: "(string \<times> string) list"
  fetched :: "request list"

text \<open>\<^verbatim>\<open>arr[i]\<close>: \<^verbatim>\<open>undefined\<close> past the end.\<close>

definition element :: "jsval list \<Rightarrow> nat \<Rightarrow> jsval" where
  "element arr i = (if i < length arr then arr ! i else JUndefined)"

text \<open>\<^verbatim>\<open>([x, y]) => [y, x]\<close>\<close>

definition swapXY :: "jsval list \<Rightarrow> jsval list" where
  "swapXY pt = [element pt 1, element pt 0]"

text \<open>
  The highlight step of \<^verbatim>\<open>identifyParcelAt\<close>:
  \<^verbatim>\<open>if (geometry && geometry.rings) { coords = geometry.rings[0].map(...); L.polygon(coords).addTo(layer) }\<close>.
  An empty \<^verbatim>\<open>rings\<close> array is truthy and its element 0 is \<^verbatim>\<open>undefined\<close>, so \<^verbatim>\<open>.map\<close>
  throws a \<^verbatim>\<open>TypeError\<close>. The result is the list of polygons added to the layer.
\<close>

definition highlightCoords :: "geometry option \<Rightarrow> js_error + jsval list list list" where
  "highlightCoords geom =
     (case geom of
        None \<Rightarrow> Inr []
      | Some g \<Rightarrow>
          (case rings g of
             None \<Rightarrow> Inr []
           | Some [] \<Rightarrow> Inl (JsError ''TypeError'' ''geometry.rings[0] is undefined'')
           | Some (ring # others) \<Rightarrow> Inr [map swapXY ring]))"

text \<open>
  \<^verbatim>\<open>identifyParcelAt(lat, lng)\<close>. The three strategies run in order, each only when the
  one before gave no property; then the highlight, the current property and the toast.
  The two \<^verbatim>\<open>try\<close> blocks around the first two strategies never reach their \<^verbatim>\<open>catch\<close>:
  \<^verbatim>\<open>tryIdentifyFromTaxlots\<close> and \<^verbatim>\<open>tryReverseGeocode\<close> catch every exception themselves.
  \<open>Inl\<close> is an exception that leaves the function (a rejected promise that nothing
  handles); the layer is cleared first, and a polygon added to it afterwards is its
  only content. The panel's DOM updates and the map library are outside the model.
\<close>

definition identifyParcelAt ::
  "runtime \<Rightarrow> net \<Rightarrow> config \<Rightarrow> jsnum \<Rightarrow> jsnum \<Rightarrow> app_state \<Rightarrow> js_error + app_state" where
  "identifyParcelAt rt net cfg lat lng st =
     (case tryIdentifyFromTaxlots rt net cfg lat lng (fetched st) of
        (result, errors1, calls1) \<Rightarrow>
          (let prop1 = map_option fst result;
               geom = (case result of Some (p, g) \<Rightarrow> g | None \<Rightarrow> None)
           in case (if prop1 = None then tryReverseGeocode rt net cfg lat lng calls1
                    else (None, [], calls1)) of
                (rev', errors2, calls2) \<Rightarrow>
                  (let prop2 = (if prop1 = None then rev' else prop1);
                       usedFallback2 = (prop1 = None \<and> rev' \<noteq> None);
                       prop3 = (case prop2 of Some p \<Rightarrow> p | None \<Rightarrow> buildNAProperty rt lat lng);
                       usedFallback = (usedFallback2 \<or> prop2 = None)
                   in case highlightCoords geom of
                        Inl err \<Rightarrow> Inl err
                      | Inr polygons \<Rightarrow>
                          Inr (st \<lparr> highlightLayer := polygons,
                                    currentProperty := Some prop3,
                                    toasts := toasts st @
                                      [if usedFallback
                                       then (''Limited data (parcel records unavailable). Showing best available info.'', ''error'')
                                       else (''Property loaded'', ''success'')],
                                    fetched := calls2 \<rparr>))))"

section \<open>Address search\<close>

text \<open>A normalized candidate: \<open>Candidate address score lat lng\<close>.\<close>

datatype candidate = Candidate jsval jsval jsval jsval

text \<open>
  \<^verbatim>\<open>normalizeCandidates(json)\<close>: \<^verbatim>\<open>(json.candidates || []).map(c => ...)\<close>; reading
  \<^verbatim>\<open>c.location.y\<close> of a candidate without a location throws.
\<close>

fun mapCandidates :: "raw_candidate list \<Rightarrow> js_error + candidate list" where
  "mapCandidates [] = Inr []"
| "mapCandidates (c # cs) =
     (case c_location c of
        None \<Rightarrow> Inl (JsError ''TypeError'' ''c.location is undefined'')
      | Some (x, y) \<Rightarrow>
          (case mapCandidates cs of
             Inl err \<Rightarrow> Inl err
           | Inr rest \<Rightarrow> Inr (Candidate (c_address c) (c_score c) y x # rest)))"

definition normalizeCandidates :: "json_body \<Rightarrow> js_error + candidate list" where
  "normalizeCandidates js =
     mapCandidates (case candidates js of None \<Rightarrow> [] | Some cs \<Rightarrow> cs)"

text \<open>
  One \<^verbatim>\<open>try\<close> block of \<^verbatim>\<open>searchAddresses\<close> (written twice in the script, for the Esri and
  the Oregon geocoder). \<open>Some cands\<close> is the \<^verbatim>\<open>return cands\<close> inside the block.
\<close>

definition searchAttempt ::
  "net \<Rightarrow> string \<Rightarrow> string \<Rightarrow> string \<Rightarrow> string list \<Rightarrow> request list
     \<Rightarrow> candidate list option \<times> string list \<times> request list" where
  "searchAttempt net label url query errors calls =
     (case fetchWithTimeout net calls (FindAddressCandidates url query) of
        (Inl err, calls') \<Rightarrow> (None, errors @ [label @ '': '' @ geocodeReason err], calls')
      | (Inr res, calls') \<Rightarrow>
          if ok res then
            (case json res of
               Inl err \<Rightarrow> (None, errors @ [label @ '': '' @ geocodeReason err], calls')
             | Inr js \<Rightarrow>
                 (case normalizeCandidates js of
                    Inl err \<Rightarrow> (None, errors @ [label @ '': '' @ geocodeReason err], calls')
                  | Inr cands \<Rightarrow>
                      if cands \<noteq> [] then (Some cands, errors, calls')
                      else (None, errors @ [label @ '': no candidates''], calls')))
          else (None, errors @ [label @ '': HTTP '' @ natToString (status res)], calls'))"

text \<open>
  \<^verbatim>\<open>searchAddresses(query)\<close>: the candidates returned, the \<^verbatim>\<open>errors\<close> array and the
  requests made. Every \<^verbatim>\<open>throw\<close> inside is caught by the block it is in.
\<close>

definition searchAddresses ::
  "net \<Rightarrow> config \<Rightarrow> string \<Rightarrow> request list \<Rightarrow> candidate list \<times> string list \<times> request list" where
  "searchAddresses net cfg query calls =
     (case searchAttempt net ''Esri geocoder'' (ESRI_GEOCODE_URL cfg) query [] calls of
        (Some cands, errors, calls') \<Rightarrow> (cands, errors, calls')
      | (None, errors, calls') \<Rightarrow>
          if OREGON_GEOCODE_URL cfg \<noteq> [] then
            (case searchAttempt net ''Oregon geocoder'' (OREGON_GEOCODE_URL cfg) query
                    errors calls' of
               (Some cands, errors', calls'') \<Rightarrow> (cands, errors', calls'')
             | (None, errors', calls'') \<Rightarrow> ([], errors', calls''))
          else ([], errors, calls'))"

section \<open>Saved properties\<close>

text \<open>\<^verbatim>\<open>isCurrentSaved()\<close>\<close>

definition isCurrentSaved :: "app_state \<Rightarrow> bool" where
  "isCurrentSaved st =
     (case currentProperty st of
        None \<Rightarrow> False
      | Some p \<Rightarrow> list_ex (\<lambda>s. uniqueKey s = uniqueKey p) (saved st))"

text \<open>
  \<^verbatim>\<open>saveCurrentProperty()\<close>, with the clock's two readings (\<^verbatim>\<open>Date.now()\<close> and the ISO
  string of \<^verbatim>\<open>new Date()\<close>) as parameters.
\<close>

definition saveCurrentProperty :: "nat \<Rightarrow> string \<Rightarrow> app_state \<Rightarrow> app_state" where
  "saveCurrentProperty now isoNow st =
     (case currentProperty st of
        None \<Rightarrow> st \<lparr> toasts := toasts st @ [(''No property selected'', ''error'')] \<rparr>
      | Some p \<Rightarrow>
          if isCurrentSaved st then
            st \<lparr> toasts := toasts st @ [(''Property already in your list'', ''error'')] \<rparr>
          else
            (let savedItem = (property.extend p (saved_item.fields now)) \<lparr> savedAt := JStr isoNow \<rparr>;
                 saved' = saved st @ [savedItem]
             in st \<lparr> saved := saved',
                     filteredSaved := saved',
                     storage := Some saved',
                     toasts := toasts st @ [(''Property saved'', ''success'')] \<rparr>))"

section \<open>The specification's vocabulary\<close>

text \<open>
  The Field Resolver in the specification's words. A key of the bag matches a candidate
  when the two are equal up to case, that is, equal in lower case (an exact match is such
  a match); a candidate resolves when a matching key holds a value that is not
  \<^verbatim>\<open>undefined\<close>, \<^verbatim>\<open>null\<close> or the empty string. \<open>matching rt attrs key\<close> lists those values
  in the bag's order.
\<close>

definition matching :: "runtime \<Rightarrow> bag \<Rightarrow> string \<Rightarrow> jsval list" where
  "matching rt attrs key =
     filter present
       (map (lookup attrs)
          (filter (\<lambda>actual. toLowerCase rt actual = toLowerCase rt key) (Object_keys attrs)))"

definition resolves :: "runtime \<Rightarrow> bag \<Rightarrow> string \<Rightarrow> bool" where
  "resolves rt attrs key = (matching rt attrs key \<noteq> [])"

text \<open>
  The first candidate, in list order, that resolves gives the result: its exact key's
  value when that is present, else the first present value among its matching keys; the
  fallback when no candidate resolves.
\<close>

definition resolveField_spec :: "runtime \<Rightarrow> bag \<Rightarrow> string list \<Rightarrow> jsval \<Rightarrow> jsval" where
  "resolveField_spec rt attrs keys fallback =
     (case List.find (resolves rt attrs) keys of
        None \<Rightarrow> fallback
      | Some key \<Rightarrow>
          if present (lookup attrs key) then lookup attrs key else hd (matching rt attrs key))"

text \<open>
  Candidate names that are data field names: none of them names a member inherited from
  \<^verbatim>\<open>Object.prototype\<close>.
\<close>

definition dataFieldNames :: "string list \<Rightarrow> bool" where
  "dataFieldNames keys = list_all (\<lambda>key. key \<notin> set Object_prototype_names) keys"

text \<open>A field value is the documented default \<open>d\<close> or a present value taken from the bag.\<close>

definition fromBagOr :: "bag \<Rightarrow> jsval \<Rightarrow> jsval \<Rightarrow> bool" where
  "fromBagOr attrs d v = (v = d \<or> (v \<in> snd ` set attrs \<and> present v))"

text \<open>
  No field of a Property is \<^verbatim>\<open>undefined\<close>. The derived labels and the raw bag are never
  \<^verbatim>\<open>undefined\<close> by their type; the others are compared.
\<close>

definition noFieldUndefined :: "property \<Rightarrow> bool" where
  "noFieldUndefined p =
     (JUndefined \<notin> set [owner p, situs p, city p, state p, zip_f p, assessed p, land p,
        improv p, acres p, zoning p, yearBuilt p, parcelId p, taxLot p, propType p,
        township p, range_f p, section_f p, savedAt p])"

text \<open>
  The Endpoint Sequencer's view of one attempt on a taxlot endpoint: the failure reason
  (a rejected fetch, a status that is not ok, a body that does not parse, no feature), or
  \<open>None\<close> when the reply has usable data.
\<close>

definition attemptReason :: "js_error + response \<Rightarrow> string option" where
  "attemptReason outcome =
     (case outcome of
        Inl err \<Rightarrow> Some (failureReason err)
      | Inr res \<Rightarrow>
          if \<not> ok res then Some (''HTTP '' @ natToString (status res))
          else
            (case json res of
               Inl err \<Rightarrow> Some (failureReason err)
             | Inr js \<Rightarrow>
                 (case features js of
                    Some (feat # others) \<Rightarrow> None
                  | Some [] \<Rightarrow> Some ''no features at this location''
                  | None \<Rightarrow> Some ''no features at this location'')))"

text \<open>The usable data of a reply: its first feature.\<close>

definition firstFeature :: "js_error + response \<Rightarrow> feature option" where
  "firstFeature outcome =
     (case outcome of
        Inl err \<Rightarrow> None
      | Inr res \<Rightarrow>
          if \<not> ok res then None
          else
            (case json res of
               Inl err \<Rightarrow> None
             | Inr js \<Rightarrow>
                 (case features js of
                    Some (feat # others) \<Rightarrow> Some feat
                  | Some [] \<Rightarrow> None
                  | None \<Rightarrow> None)))"

text \<open>A geocoder's reply yields at least one candidate.\<close>

definition yieldsCandidates :: "js_error + response \<Rightarrow> bool" where
  "yieldsCandidates outcome =
     (case outcome of
        Inl err \<Rightarrow> False
      | Inr res \<Rightarrow>
          ok res \<and>
          (case json res of
             Inl err \<Rightarrow> False
           | Inr js \<Rightarrow>
               (case normalizeCandidates js of
                  Inl err \<Rightarrow> False
                | Inr cands \<Rightarrow> cands \<noteq> [])))"

section \<open>Scenarios for the examples\<close>

text \<open>
  A host for the closed examples. None of them reaches one of its four conversions: their
  numbers are formatted by \<^verbatim>\<open>toFixed\<close> and their other values are ASCII strings.
\<close>

definition exampleRuntime :: runtime where
  "exampleRuntime =
     \<lparr> shortestDigits = (\<lambda>r. ''''), stringToNumber = (\<lambda>s. NaN),
       unicodeLowerCase = (\<lambda>s. s), inheritedToString = (\<lambda>name. '''') \<rparr>"

text \<open>\<^verbatim>\<open>AppState\<close> as the script creates it, in a browser with nothing stored.\<close>

definition initialState :: app_state where
  "initialState =
     \<lparr> currentProperty = None, saved = [], filteredSaved = [], highlightLayer = [],
       storage = None, toasts = [], fetched = [] \<rparr>"

text \<open>A reply with status 200 and a body holding the given features.\<close>

definition featuresReply :: "feature list \<Rightarrow> js_error + response" where
  "featuresReply fs =
     Inr \<lparr> ok = True, status = 200,
           json = Inr \<lparr> features = Some fs, address = None, candidates = None \<rparr> \<rparr>"

text \<open>A network that rejects every request.\<close>

definition netDown :: net where
  "netDown calls rq = Inl (JsError ''TypeError'' ''Failed to fetch'')"

text \<open>
  A taxlot service whose feature has a polygon geometry without rings (the Esri JSON of
  an empty polygon); every geocoder request is rejected.
\<close>

definition netEmptyRings :: net where
  "netEmptyRings calls rq =
     (case rq of
        TaxlotQuery endpoint lat lng \<Rightarrow>
          featuresReply
            [\<lparr> attributes = Some [(''OWNER'', JStr ''Smith'')], properties = None,
               geometry = Some \<lparr> rings = Some [] \<rparr> \<rparr>]
      | ReverseGeocode url lat lng \<Rightarrow> Inl (JsError ''TypeError'' ''Failed to fetch'')
      | FindAddressCandidates url query \<Rightarrow> Inl (JsError ''TypeError'' ''Failed to fetch''))"

text \<open>Endpoint \<open>A\<close> is unreachable; \<open>B\<close> and every other endpoint has a feature.\<close>

definition netABC :: net where
  "netABC calls rq =
     (case rq of
        TaxlotQuery endpoint lat lng \<Rightarrow>
          if endpoint = ''A'' then Inl (JsError ''TypeError'' ''Failed to fetch'')
          else featuresReply
                 [\<lparr> attributes = Some [(''OWNER'', JStr endpoint)], properties = None,
                    geometry = None \<rparr>]
      | ReverseGeocode url lat lng \<Rightarrow> Inl (JsError ''TypeError'' ''Failed to fetch'')
      | FindAddressCandidates url query \<Rightarrow> Inl (JsError ''TypeError'' ''Failed to fetch''))"

text \<open>
  Endpoint \<open>A\<close> times out, \<open>B\<close> answers with status 500, every other endpoint answers
  with no feature.
\<close>

definition netAllFail :: net where
  "netAllFail calls rq =
     (case rq of
        TaxlotQuery endpoint lat lng \<Rightarrow>
          if endpoint = ''A'' then Inl (JsError ''AbortError'' ''The operation was aborted.'')
          else if endpoint = ''B''
          then Inr \<lparr> ok = False, status = 500,
                     json = Inl (JsError ''SyntaxError'' ''Unexpected token'') \<rparr>
          else featuresReply []
      | ReverseGeocode url lat lng \<Rightarrow> Inl (JsError ''TypeError'' ''Failed to fetch'')
      | FindAddressCandidates url query \<Rightarrow> Inl (JsError ''TypeError'' ''Failed to fetch''))"

text \<open>A taxlot service whose feature has one ring of two points, \<open>(1, 2)\<close> and \<open>(3, 4)\<close>.\<close>

definition netPolygon :: net where
  "netPolygon calls rq =
     (case rq of
        TaxlotQuery endpoint lat lng \<Rightarrow>
          featuresReply
            [\<lparr> attributes = Some [(''OWNER'', JStr ''Smith'')], properties = None,
               geometry = Some \<lparr> rings = Some [[[JNum (Fin 1), JNum (Fin 2)],
                                                [JNum (Fin 3), JNum (Fin 4)]]] \<rparr> \<rparr>]
      | ReverseGeocode url lat lng \<Rightarrow> Inl (JsError ''TypeError'' ''Failed to fetch'')
      | FindAddressCandidates url query \<Rightarrow> Inl (JsError ''TypeError'' ''Failed to fetch''))"

text \<open>
  The Esri geocoder answers a search with status 200 and an empty candidate list; a
  second geocoder answers with status 503.
\<close>

definition netNoCandidates :: net where
  "netNoCandidates calls rq =
     (case rq of
        TaxlotQuery endpoint lat lng \<Rightarrow> Inl (JsError ''TypeError'' ''Failed to fetch'')
      | ReverseGeocode url lat lng \<Rightarrow> Inl (JsError ''TypeError'' ''Failed to fetch'')
      | FindAddressCandidates url query \<Rightarrow>
          if url = ESRI_GEOCODE_URL CONFIG
          then Inr \<lparr> ok = True, status = 200,
                     json = Inr \<lparr> features = None, address = None, candidates = Some [] \<rparr> \<rparr>
          else Inr \<lparr> ok = False, status = 503,
                     json = Inl (JsError ''SyntaxError'' ''Unexpected token'') \<rparr>)"

section \<open>Evaluation lemmas\<close>

lemma natToString_small: "n < 10 \<Longrightarrow> natToString n = [digitChar n]"
  by (simp add: natToString.simps)

lemma natToString_big:
  "\<not> n < 10 \<Longrightarrow> natToString n = natToString (n div 10) @ [digitChar (n mod 10)]"
  by (subst natToString.simps) simp

lemmas natToString_eval = natToString_small natToString_big digitChar_def

lemma floor_rat_numeral_div: "\<lfloor>(numeral a :: rat) / numeral b\<rfloor> = numeral a div numeral b"
  using floor_divide_of_int_eq [of "numeral a" "numeral b", where ?'a = rat] by simp

lemmas toFixed_eval = toFixed_def Let_def floor_rat_numeral_div natToString_eval

lemmas bag_eval =
  lookup_def present_def Object_keys_def Object_prototype_names_def
  toLowerCase_def isAscii_def lowerChar_def

lemmas FIELD_MAP_defs =
  FIELD_MAP_owner_def FIELD_MAP_situs_def FIELD_MAP_city_def FIELD_MAP_state_def
  FIELD_MAP_zip_def FIELD_MAP_assessed_def FIELD_MAP_land_def FIELD_MAP_improv_def
  FIELD_MAP_acres_def FIELD_MAP_zoning_def FIELD_MAP_yearBuilt_def FIELD_MAP_parcelId_def
  FIELD_MAP_taxLot_def FIELD_MAP_propType_def FIELD_MAP_township_def FIELD_MAP_range_def
  FIELD_MAP_section_def

text \<open>No candidate name of \<^verbatim>\<open>FIELD_MAP\<close> names a member of \<^verbatim>\<open>Object.prototype\<close>.\<close>

lemma FIELD_MAP_dataFieldNames:
  "dataFieldNames FIELD_MAP_owner"
  "dataFieldNames FIELD_MAP_situs"
  "dataFieldNames FIELD_MAP_city"
  "dataFieldNames FIELD_MAP_state"
  "dataFieldNames FIELD_MAP_zip"
  "dataFieldNames FIELD_MAP_assessed"
  "dataFieldNames FIELD_MAP_land"
  "dataFieldNames FIELD_MAP_improv"
  "dataFieldNames FIELD_MAP_acres"
  "dataFieldNames FIELD_MAP_zoning"
  "dataFieldNames FIELD_MAP_yearBuilt"
  "dataFieldNames FIELD_MAP_parcelId"
  "dataFieldNames FIELD_MAP_taxLot"
  "dataFieldNames FIELD_MAP_propType"
  "dataFieldNames FIELD_MAP_township"
  "dataFieldNames FIELD_MAP_range"
  "dataFieldNames FIELD_MAP_section"
  by (simp_all add: dataFieldNames_def FIELD_MAP_defs Object_prototype_names_def)

subsection \<open>getField\<close>

lemma scanKeys_filter:
  "scanKeys rt attrs lower ks =
     (case filter present (map (lookup attrs) (filter (\<lambda>a. toLowerCase rt a = lower) ks)) of
        [] \<Rightarrow> None
      | v # vs \<Rightarrow> Some v)"
  by (induction ks) auto

lemma scanKeys_matching:
  "scanKeys rt attrs (toLowerCase rt key) (Object_keys attrs) =
     (if resolves rt attrs key then Some (hd (matching rt attrs key)) else None)"
  by (simp add: scanKeys_filter resolves_def matching_def split: list.splits)

lemma scanKeys_present:
  assumes "scanKeys rt attrs lower ks = Some v"
  shows "present v"
  using assms by (induction ks) (auto split: if_splits)

text \<open>An own property shadows the inherited member of the same name.\<close>

lemma lookup_own:
  assumes "key \<in> set (Object_keys attrs)"
  shows "(key, lookup attrs key) \<in> set attrs"
proof -
  from assms have "map_of attrs key \<noteq> None"
    by (simp add: Object_keys_def map_of_eq_None_iff)
  then obtain v where "map_of attrs key = Some v"
    by blast
  then show ?thesis
    by (simp add: lookup_def map_of_SomeD)
qed

lemma lookup_present_own:
  assumes "present (lookup attrs key)" and "key \<notin> set Object_prototype_names"
  shows "key \<in> set (Object_keys attrs)"
proof (rule ccontr)
  assume "key \<notin> set (Object_keys attrs)"
  then have "map_of attrs key = None"
    by (simp add: Object_keys_def map_of_eq_None_iff)
  with assms(2) have "lookup attrs key = JUndefined"
    by (simp add: lookup_def)
  with assms(1) show False
    by (simp add: present_def)
qed

lemma present_resolves:
  assumes "present (lookup attrs key)" and "key \<notin> set Object_prototype_names"
  shows "resolves rt attrs key"
proof -
  have "key \<in> set (Object_keys attrs)"
    using assms by (rule lookup_present_own)
  then have "lookup attrs key \<in> set (matching rt attrs key)"
    using assms(1) by (simp add: matching_def)
  then show ?thesis
    by (auto simp: resolves_def)
qed

lemma getField_refines:
  assumes "dataFieldNames keys"
  shows "getField rt attrs keys fb =
           resolveField_spec rt attrs keys (if fb = JUndefined then JNull else fb)"
  using assms
proof (induction keys)
  case Nil
  show ?case by (simp add: resolveField_spec_def)
next
  case (Cons key keys)
  from Cons.prems have own: "key \<notin> set Object_prototype_names" and rest: "dataFieldNames keys"
    by (simp_all add: dataFieldNames_def)
  show ?case
  proof (cases "resolves rt attrs key")
    case True
    then show ?thesis
      by (simp add: resolveField_spec_def scanKeys_matching)
  next
    case False
    then have "\<not> present (lookup attrs key)"
      using present_resolves own by blast
    with False Cons.IH [OF rest] show ?thesis
      by (simp add: resolveField_spec_def scanKeys_matching)
  qed
qed

lemma matching_from_bag:
  assumes "v \<in> set (matching rt attrs key)"
  shows "v \<in> snd ` set attrs \<and> present v"
proof -
  from assms obtain a where a: "a \<in> set (Object_keys attrs)" "v = lookup attrs a" "present v"
    by (auto simp: matching_def)
  then have "(a, v) \<in> set attrs"
    using lookup_own by simp
  with a show ?thesis by force
qed

lemma getField_unresolved:
  assumes "dataFieldNames keys" and "\<forall>key \<in> set keys. \<not> resolves rt attrs key"
  shows "getField rt attrs keys fb = (if fb = JUndefined then JNull else fb)"
proof -
  have "List.find (resolves rt attrs) keys = None"
    using assms(2) by (simp add: find_None_iff)
  then show ?thesis
    by (simp add: getField_refines [OF assms(1)] resolveField_spec_def)
qed

lemma resolveField_spec_resolved:
  assumes "\<exists>key \<in> set keys. resolves rt attrs key"
  shows "resolveField_spec rt attrs keys fb = resolveField_spec rt attrs keys fb'"
proof -
  from assms obtain key where "List.find (resolves rt attrs) keys = Some key"
    by (cases "List.find (resolves rt attrs) keys") (auto simp: find_None_iff)
  then show ?thesis
    by (simp add: resolveField_spec_def)
qed

lemma getField_resolved:
  assumes "dataFieldNames keys" and "\<exists>key \<in> set keys. resolves rt attrs key"
  shows "getField rt attrs keys fb \<in> snd ` set attrs \<and> present (getField rt attrs keys fb)"
proof -
  let ?fb = "if fb = JUndefined then JNull else fb"
  from assms(2) obtain key where k: "List.find (resolves rt attrs) keys = Some key"
    by (cases "List.find (resolves rt attrs) keys") (auto simp: find_None_iff)
  then have r: "resolves rt attrs key" and mem: "key \<in> set keys"
    by (auto simp: find_Some_iff)
  from mem assms(1) have own: "key \<notin> set Object_prototype_names"
    by (simp add: dataFieldNames_def list_all_iff)
  show ?thesis
  proof (cases "present (lookup attrs key)")
    case True
    then have "getField rt attrs keys fb = lookup attrs key"
      using k by (simp add: getField_refines [OF assms(1)] resolveField_spec_def)
    moreover have "(key, lookup attrs key) \<in> set attrs"
      using True own by (intro lookup_own lookup_present_own)
    ultimately show ?thesis using True by force
  next
    case False
    then have "getField rt attrs keys fb = hd (matching rt attrs key)"
      using k by (simp add: getField_refines [OF assms(1)] resolveField_spec_def)
    moreover have "hd (matching rt attrs key) \<in> set (matching rt attrs key)"
      using r by (simp add: resolves_def)
    ultimately show ?thesis
      using matching_from_bag by simp
  qed
qed

lemma getField_fromBagOr:
  assumes "dataFieldNames keys" and "fb \<noteq> JUndefined"
  shows "fromBagOr attrs fb (getField rt attrs keys fb)"
proof (cases "\<exists>key \<in> set keys. resolves rt attrs key")
  case True
  then show ?thesis
    using getField_resolved [OF assms(1), of rt attrs fb] by (simp add: fromBagOr_def)
next
  case False
  then show ?thesis
    using getField_unresolved [OF assms(1), of rt attrs fb] assms(2)
    by (simp add: fromBagOr_def)
qed

text \<open>\<^verbatim>\<open>getField\<close> never returns \<^verbatim>\<open>undefined\<close>, whatever the candidates and the fallback.\<close>

lemma getField_defined: "getField rt attrs keys fb \<noteq> JUndefined"
proof (induction keys)
  case Nil
  show ?case by simp
next
  case (Cons key keys)
  show ?case
  proof (cases "present (lookup attrs key)")
    case True
    then show ?thesis by (auto simp: present_def)
  next
    case False
    show ?thesis
    proof (cases "scanKeys rt attrs (toLowerCase rt key) (Object_keys attrs)")
      case None
      with False Cons show ?thesis by simp
    next
      case (Some v)
      then have "present v" by (rule scanKeys_present)
      with False Some show ?thesis by (auto simp: present_def)
    qed
  qed
qed

lemma getField_defined_sym: "JUndefined \<noteq> getField rt attrs keys fb"
  using getField_defined [of rt attrs keys fb] by simp

text \<open>
  Claim C2 says that for every list of candidate names and every fallback \<^verbatim>\<open>getField\<close>
  returns the value of the first candidate that resolves in the bag, and the fallback
  when none does. Two inputs show otherwise. \<^verbatim>\<open>attrs[key]\<close> also reads the members a plain
  object inherits: in the empty bag the candidate \<^verbatim>\<open>constructor\<close> matches no key, and
  \<^verbatim>\<open>getField({}, ['constructor'], 'fb')\<close> returns the inherited function, not the fallback.
  And the parameter has the default \<^verbatim>\<open>null\<close>: with the fallback \<^verbatim>\<open>undefined\<close> and no
  candidate resolving, the call returns \<^verbatim>\<open>null\<close>.
\<close>

theorem getField_inherited_member:
  "\<not> resolves exampleRuntime [] ''constructor''
   \<and> getField exampleRuntime [] [''constructor''] (JStr ''fb'') = JInherited ''constructor''
   \<and> getField exampleRuntime [] [''constructor''] (JStr ''fb'') \<noteq> JStr ''fb''
   \<and> \<not> resolves exampleRuntime [] ''OWNER''
   \<and> getField exampleRuntime [] [''OWNER''] JUndefined = JNull
   \<and> getField exampleRuntime [] [''OWNER''] JUndefined \<noteq> JUndefined"
  by (simp add: resolves_def matching_def bag_eval)

text \<open>
  Claim C2, as the script has it. For every attribute bag, every ordered list of
  candidate names none of which names a member inherited from \<^verbatim>\<open>Object.prototype\<close>, and
  every fallback, \<^verbatim>\<open>getField\<close> returns what the Field Resolver of the specification
  returns: the value of the first candidate, in list order, that has a matching key
  (exactly or up to case) with a value that is not \<^verbatim>\<open>null\<close>, \<^verbatim>\<open>undefined\<close> or the empty
  string; when no candidate resolves, the fallback, with \<^verbatim>\<open>null\<close> in the place of a
  fallback that is \<^verbatim>\<open>undefined\<close>. For the bag \<^verbatim>\<open>{ownname: "Smith"}\<close> and the candidates
  \<^verbatim>\<open>["OWNER1", "OWNER", "OWNNAME"]\<close> it returns \<^verbatim>\<open>"Smith"\<close>.
\<close>

theorem getField_first_resolving_candidate:
  assumes "dataFieldNames keys"
  shows "getField rt attrs keys fallback =
           resolveField_spec rt attrs keys (if fallback = JUndefined then JNull else fallback)
         \<and> getField rt [(''ownname'', JStr ''Smith'')] [''OWNER1'', ''OWNER'', ''OWNNAME'']
               fallback
             = JStr ''Smith''"
proof
  show "getField rt attrs keys fallback =
          resolveField_spec rt attrs keys (if fallback = JUndefined then JNull else fallback)"
    using assms by (rule getField_refines)
  show "getField rt [(''ownname'', JStr ''Smith'')] [''OWNER1'', ''OWNER'', ''OWNNAME'']
          fallback
        = JStr ''Smith''"
    by (simp add: bag_eval)
qed

theorem getField_first_resolving_candidate_witness:
  "dataFieldNames [''OWNER1'', ''owner'', ''NAME'']
   \<and> getField exampleRuntime
        [(''Owner'', JStr ''''), (''NAME'', JNull), (''OWNER'', JStr ''Jones''),
         (''name'', JStr ''Lee'')]
        [''OWNER1'', ''owner'', ''NAME''] (JStr ''Unknown Owner'') = JStr ''Jones''"
proof -
  have names: "dataFieldNames [''OWNER1'', ''owner'', ''NAME'']"
    by (simp add: dataFieldNames_def Object_prototype_names_def)
  from getField_first_resolving_candidate
    [OF names, of exampleRuntime
        "[(''Owner'', JStr ''''), (''NAME'', JNull), (''OWNER'', JStr ''Jones''),
          (''name'', JStr ''Lee'')]"
        "JStr ''Unknown Owner''"]
    names
  show ?thesis
    by (simp add: resolveField_spec_def resolves_def matching_def bag_eval)
qed

subsection \<open>normalizeParcel\<close>

lemma normalizeParcel_fields:
  "owner (normalizeParcel rt attrs) = getField rt attrs FIELD_MAP_owner (JStr ''Unknown Owner'')"
  "situs (normalizeParcel rt attrs) = getField rt attrs FIELD_MAP_situs (JStr ''Address not available'')"
  "city (normalizeParcel rt attrs) = getField rt attrs FIELD_MAP_city (JStr '''')"
  "state (normalizeParcel rt attrs) = getField rt attrs FIELD_MAP_state (JStr ''OR'')"
  "zip_f (normalizeParcel rt attrs) = getField rt attrs FIELD_MAP_zip (JStr '''')"
  "assessed (normalizeParcel rt attrs) = getField rt attrs FIELD_MAP_assessed JNull"
  "land (normalizeParcel rt attrs) = getField rt attrs FIELD_MAP_land JNull"
  "improv (normalizeParcel rt attrs) = getField rt attrs FIELD_MAP_improv JNull"
  "acres (normalizeParcel rt attrs) = getField rt attrs FIELD_MAP_acres JNull"
  "zoning (normalizeParcel rt attrs) = getField rt attrs FIELD_MAP_zoning (JStr ''N/A'')"
  "yearBuilt (normalizeParcel rt attrs) = getField rt attrs FIELD_MAP_yearBuilt (JStr ''N/A'')"
  "parcelId (normalizeParcel rt attrs) = getField rt attrs FIELD_MAP_parcelId (JStr ''N/A'')"
  "taxLot (normalizeParcel rt attrs) =
     getField rt attrs FIELD_MAP_taxLot (getField rt attrs FIELD_MAP_parcelId (JStr ''N/A''))"
  "propType (normalizeParcel rt attrs) = getField rt attrs FIELD_MAP_propType (JStr ''N/A'')"
  "township (normalizeParcel rt attrs) = getField rt attrs FIELD_MAP_township (JStr '''')"
  "range_f (normalizeParcel rt attrs) = getField rt attrs FIELD_MAP_range (JStr '''')"
  "section_f (normalizeParcel rt attrs) = getField rt attrs FIELD_MAP_section (JStr '''')"
  "savedAt (normalizeParcel rt attrs) = JNull"
  "rawAttrs (normalizeParcel rt attrs) = attrs"
  by (simp_all add: normalizeParcel_def Let_def)

lemma normalizeParcel_lotSizeLabel:
  "lotSizeLabel (normalizeParcel rt attrs) =
     (if truthy (getField rt attrs FIELD_MAP_acres JNull)
      then toFixed rt 2 (toNumber rt (getField rt attrs FIELD_MAP_acres JNull)) @ '' ac''
      else ''N/A'')"
  by (simp add: normalizeParcel_def Let_def)

lemma taxLot_fromBagOr:
  "fromBagOr attrs (JStr ''N/A'') (taxLot (normalizeParcel rt attrs))"
proof -
  let ?pid = "getField rt attrs FIELD_MAP_parcelId (JStr ''N/A'')"
  have "fromBagOr attrs ?pid (getField rt attrs FIELD_MAP_taxLot ?pid)"
    using FIELD_MAP_dataFieldNames(13) getField_defined by (rule getField_fromBagOr)
  moreover have "fromBagOr attrs (JStr ''N/A'') ?pid"
    using FIELD_MAP_dataFieldNames(12) by (rule getField_fromBagOr) simp
  ultimately show ?thesis
    unfolding fromBagOr_def normalizeParcel_fields by metis
qed

lemma normalizeParcel_noFieldUndefined: "noFieldUndefined (normalizeParcel rt attrs)"
  by (simp add: noFieldUndefined_def normalizeParcel_fields getField_defined_sym getField_defined)

lemma getField_empty_bag:
  assumes "dataFieldNames keys"
  shows "getField rt [] keys fb = (if fb = JUndefined then JNull else fb)"
  using assms by (rule getField_unresolved) (simp add: resolves_def matching_def Object_keys_def)

lemma normalizeParcel_empty:
  "normalizeParcel rt [] =
     \<lparr> uniqueKey = ''n/a|address not available|unknown owner'',
       owner = JStr ''Unknown Owner'',
       situs = JStr ''Address not available'',
       city = JStr '''',
       state = JStr ''OR'',
       zip_f = JStr '''',
       fullAddress = ''Address not available | OR'',
       assessed = JNull,
       land = JNull,
       improv = JNull,
       acres = JNull,
       lotSizeLabel = ''N/A'',
       zoning = JStr ''N/A'',
       yearBuilt = JStr ''N/A'',
       parcelId = JStr ''N/A'',
       taxLot = JStr ''N/A'',
       propType = JStr ''N/A'',
       township = JStr '''',
       range_f = JStr '''',
       section_f = JStr '''',
       trs = ''N/A'',
       savedAt = JNull,
       rawAttrs = [] \<rparr>"
  by (simp add: normalizeParcel_def Let_def getField_empty_bag FIELD_MAP_dataFieldNames
      fullParts_def elementString_def toLowerCase_def isAscii_def lowerChar_def)

text \<open>
  Claim C3. \<^verbatim>\<open>normalizeParcel\<close> is total: for every attribute bag it returns a Property in
  which no field is \<^verbatim>\<open>undefined\<close>, and every field read from the bag is a present value
  of the bag or its documented default: owner \<^verbatim>\<open>"Unknown Owner"\<close>, situs
  \<^verbatim>\<open>"Address not available"\<close>, state \<^verbatim>\<open>"OR"\<close>, zoning, year built, parcel id, tax lot and
  property type \<^verbatim>\<open>"N/A"\<close>, the four amounts \<^verbatim>\<open>null\<close>, the others the empty string. For
  the empty bag \<^verbatim>\<open>{}\<close> the Property holds exactly the defaults.
\<close>

theorem normalizeParcel_total:
  "(let p = normalizeParcel rt attrs in
      noFieldUndefined p
      \<and> fromBagOr attrs (JStr ''Unknown Owner'') (owner p)
      \<and> fromBagOr attrs (JStr ''Address not available'') (situs p)
      \<and> fromBagOr attrs (JStr '''') (city p)
      \<and> fromBagOr attrs (JStr ''OR'') (state p)
      \<and> fromBagOr attrs (JStr '''') (zip_f p)
      \<and> fromBagOr attrs JNull (assessed p)
      \<and> fromBagOr attrs JNull (land p)
      \<and> fromBagOr attrs JNull (improv p)
      \<and> fromBagOr attrs JNull (acres p)
      \<and> fromBagOr attrs (JStr ''N/A'') (zoning p)
      \<and> fromBagOr attrs (JStr ''N/A'') (yearBuilt p)
      \<and> fromBagOr attrs (JStr ''N/A'') (parcelId p)
      \<and> fromBagOr attrs (JStr ''N/A'') (taxLot p)
      \<and> fromBagOr attrs (JStr ''N/A'') (propType p)
      \<and> fromBagOr attrs (JStr '''') (township p)
      \<and> fromBagOr attrs (JStr '''') (range_f p)
      \<and> fromBagOr attrs (JStr '''') (section_f p)
      \<and> savedAt p = JNull
      \<and> rawAttrs p = attrs)
   \<and> normalizeParcel rt [] =
       \<lparr> uniqueKey = ''n/a|address not available|unknown owner'',
         owner = JStr ''Unknown Owner'',
         situs = JStr ''Address not available'',
         city = JStr '''',
         state = JStr ''OR'',
         zip_f = JStr '''',
         fullAddress = ''Address not available | OR'',
         assessed = JNull,
         land = JNull,
         improv = JNull,
         acres = JNull,
         lotSizeLabel = ''N/A'',
         zoning = JStr ''N/A'',
         yearBuilt = JStr ''N/A'',
         parcelId = JStr ''N/A'',
         taxLot = JStr ''N/A'',
         propType = JStr ''N/A'',
         township = JStr '''',
         range_f = JStr '''',
         section_f = JStr '''',
         trs = ''N/A'',
         savedAt = JNull,
         rawAttrs = [] \<rparr>"
proof
  show "normalizeParcel rt [] =
       \<lparr> uniqueKey = ''n/a|address not available|unknown owner'',
         owner = JStr ''Unknown Owner'',
         situs = JStr ''Address not available'',
         city = JStr '''',
         state = JStr ''OR'',
         zip_f = JStr '''',
         fullAddress = ''Address not available | OR'',
         assessed = JNull,
         land = JNull,
         improv = JNull,
         acres = JNull,
         lotSizeLabel = ''N/A'',
         zoning = JStr ''N/A'',
         yearBuilt = JStr ''N/A'',
         parcelId = JStr ''N/A'',
         taxLot = JStr ''N/A'',
         propType = JStr ''N/A'',
         township = JStr '''',
         range_f = JStr '''',
         section_f = JStr '''',
         trs = ''N/A'',
         savedAt = JNull,
         rawAttrs = [] \<rparr>"
    by (rule normalizeParcel_empty)
  have tl: "fromBagOr attrs (JStr ''N/A'') (taxLot (normalizeParcel rt attrs))"
    by (rule taxLot_fromBagOr)
  have nu: "noFieldUndefined (normalizeParcel rt attrs)"
    by (rule normalizeParcel_noFieldUndefined)
  show "let p = normalizeParcel rt attrs in
      noFieldUndefined p
      \<and> fromBagOr attrs (JStr ''Unknown Owner'') (owner p)
      \<and> fromBagOr attrs (JStr ''Address not available'') (situs p)
      \<and> fromBagOr attrs (JStr '''') (city p)
      \<and> fromBagOr attrs (JStr ''OR'') (state p)
      \<and> fromBagOr attrs (JStr '''') (zip_f p)
      \<and> fromBagOr attrs JNull (assessed p)
      \<and> fromBagOr attrs JNull (land p)
      \<and> fromBagOr attrs JNull (improv p)
      \<and> fromBagOr attrs JNull (acres p)
      \<and> fromBagOr attrs (JStr ''N/A'') (zoning p)
      \<and> fromBagOr attrs (JStr ''N/A'') (yearBuilt p)
      \<and> fromBagOr attrs (JStr ''N/A'') (parcelId p)
      \<and> fromBagOr attrs (JStr ''N/A'') (taxLot p)
      \<and> fromBagOr attrs (JStr ''N/A'') (propType p)
      \<and> fromBagOr attrs (JStr '''') (township p)
      \<and> fromBagOr attrs (JStr '''') (range_f p)
      \<and> fromBagOr attrs (JStr '''') (section_f p)
      \<and> savedAt p = JNull
      \<and> rawAttrs p = attrs"
    unfolding Let_def
    using tl nu
    by (simp add: normalizeParcel_fields(1-12,14-19) getField_fromBagOr
        FIELD_MAP_dataFieldNames)
qed

theorem normalizeParcel_total_witness:
  "noFieldUndefined
     (normalizeParcel exampleRuntime
        [(''OWNER1'', JStr ''Smith''), (''acres'', JNum (Fin (3 / 2))), (''ZONE'', JNull)])
   \<and> fromBagOr [(''OWNER1'', JStr ''Smith''), (''acres'', JNum (Fin (3 / 2))), (''ZONE'', JNull)]
         (JStr ''N/A'')
         (zoning (normalizeParcel exampleRuntime
            [(''OWNER1'', JStr ''Smith''), (''acres'', JNum (Fin (3 / 2))), (''ZONE'', JNull)]))
   \<and> owner (normalizeParcel exampleRuntime
         [(''OWNER1'', JStr ''Smith''), (''acres'', JNum (Fin (3 / 2))), (''ZONE'', JNull)])
       = JStr ''Smith''
   \<and> zoning (normalizeParcel exampleRuntime
         [(''OWNER1'', JStr ''Smith''), (''acres'', JNum (Fin (3 / 2))), (''ZONE'', JNull)])
       = JStr ''N/A''"
proof -
  let ?bag = "[(''OWNER1'', JStr ''Smith''), (''acres'', JNum (Fin (3 / 2))), (''ZONE'', JNull)]"
  let ?p = "normalizeParcel exampleRuntime ?bag"
  have total: "noFieldUndefined ?p \<and> fromBagOr ?bag (JStr ''N/A'') (zoning ?p)"
    using normalizeParcel_total [of exampleRuntime ?bag] by (simp add: Let_def)
  have own: "owner ?p = JStr ''Smith''"
    by (simp add: normalizeParcel_fields FIELD_MAP_owner_def bag_eval)
  have zon: "zoning ?p = JStr ''N/A''"
    by (simp add: normalizeParcel_fields FIELD_MAP_zoning_def bag_eval)
  from total own zon show ?thesis by blast
qed

subsection \<open>The lot-size label\<close>

lemma present_falsy:
  "(present v \<and> \<not> truthy v) = (v = JNum (Fin 0) \<or> v = JNum NaN \<or> v = JBool False)"
proof (cases v)
  case (JNum x)
  then show ?thesis by (cases x) (auto simp: present_def)
qed (auto simp: present_def)

text \<open>
  Claim C9 says the label is the formatted acreage whenever acreage is present. The
  script tests the acreage for truthiness, so an acreage of \<open>0\<close> (a number, present in the
  bag, whose two-decimal format is \<^verbatim>\<open>"0.00 ac"\<close>) gets the label \<^verbatim>\<open>"N/A"\<close>.
\<close>

theorem lotSizeLabel_zero_acres:
  "acres (normalizeParcel exampleRuntime [(''ACRES'', JNum (Fin 0))]) = JNum (Fin 0)
   \<and> present (acres (normalizeParcel exampleRuntime [(''ACRES'', JNum (Fin 0))]))
   \<and> toFixed exampleRuntime 2 (toNumber exampleRuntime (JNum (Fin 0))) @ '' ac'' = ''0.00 ac''
   \<and> lotSizeLabel (normalizeParcel exampleRuntime [(''ACRES'', JNum (Fin 0))]) = ''N/A''
   \<and> lotSizeLabel (normalizeParcel exampleRuntime [(''ACRES'', JNum (Fin 0))])
       \<noteq> toFixed exampleRuntime 2 (toNumber exampleRuntime (JNum (Fin 0))) @ '' ac''"
  by (simp add: normalizeParcel_fields normalizeParcel_lotSizeLabel FIELD_MAP_acres_def
      bag_eval toFixed_eval)

text \<open>
  Claim C9, as the script has it. The lot-size label is the resolved acreage formatted to
  two decimals and followed by \<^verbatim>\<open>" ac"\<close> whenever the resolved acreage is truthy, and
  \<^verbatim>\<open>"N/A"\<close> otherwise: when no acreage field resolves (the acreage is then \<^verbatim>\<open>null\<close>), and
  when the resolved acreage is the number zero, \<^verbatim>\<open>NaN\<close> or \<^verbatim>\<open>false\<close>, the only present
  values that are not truthy. An acreage of \<open>1.5\<close> gives \<^verbatim>\<open>"1.50 ac"\<close>.
\<close>

theorem lotSizeLabel_truthy_acres:
  "(let a = acres (normalizeParcel rt attrs);
        label = lotSizeLabel (normalizeParcel rt attrs)
    in (truthy a \<longrightarrow> label = toFixed rt 2 (toNumber rt a) @ '' ac'')
       \<and> (\<not> truthy a \<longrightarrow> label = ''N/A'')
       \<and> ((\<forall>key \<in> set FIELD_MAP_acres. \<not> resolves rt attrs key) \<longrightarrow> a = JNull \<and> label = ''N/A'')
       \<and> ((\<exists>key \<in> set FIELD_MAP_acres. resolves rt attrs key) \<longrightarrow>
            present a
            \<and> (truthy a = (a \<noteq> JNum (Fin 0) \<and> a \<noteq> JNum NaN \<and> a \<noteq> JBool False))))
   \<and> lotSizeLabel (normalizeParcel rt [(''ACRES'', JNum (Fin (3 / 2)))]) = ''1.50 ac''"
proof -
  let ?a = "getField rt attrs FIELD_MAP_acres JNull"
  have absent: "?a = JNull" if "\<forall>key \<in> set FIELD_MAP_acres. \<not> resolves rt attrs key"
    using getField_unresolved [OF FIELD_MAP_dataFieldNames(9) that, of JNull] by simp
  have resolved: "present ?a" if "\<exists>key \<in> set FIELD_MAP_acres. resolves rt attrs key"
    using getField_resolved [OF FIELD_MAP_dataFieldNames(9) that] by simp
  have falsy: "truthy ?a = (?a \<noteq> JNum (Fin 0) \<and> ?a \<noteq> JNum NaN \<and> ?a \<noteq> JBool False)"
    if "present ?a"
    using that present_falsy [of ?a] by blast
  have example: "lotSizeLabel (normalizeParcel rt [(''ACRES'', JNum (Fin (3 / 2)))]) = ''1.50 ac''"
    by (simp add: normalizeParcel_lotSizeLabel FIELD_MAP_acres_def bag_eval toFixed_eval)
  show ?thesis
    unfolding Let_def normalizeParcel_fields normalizeParcel_lotSizeLabel
    using absent resolved falsy example
    by (simp add: normalizeParcel_lotSizeLabel)
qed

theorem lotSizeLabel_truthy_acres_witness:
  "truthy (acres (normalizeParcel exampleRuntime [(''Acreage'', JNum (Fin (1 / 4)))]))
   \<and> present (acres (normalizeParcel exampleRuntime [(''Acreage'', JNum (Fin (1 / 4)))]))
   \<and> lotSizeLabel (normalizeParcel exampleRuntime [(''Acreage'', JNum (Fin (1 / 4)))])
       = ''0.25 ac''"
  using lotSizeLabel_truthy_acres [of exampleRuntime "[(''Acreage'', JNum (Fin (1 / 4)))]"]
  by (simp add: Let_def normalizeParcel_fields FIELD_MAP_acres_def bag_eval toFixed_eval)

subsection \<open>The tax lot\<close>

text \<open>
  Claim C10 says that, when no tax-lot candidate resolves, the tax lot is \<^verbatim>\<open>"N/A"\<close>
  exactly when the parcel-id candidates are all absent too. The tax lot is the parcel id
  then, and the bag can hold the text \<^verbatim>\<open>"N/A"\<close> itself: in the bag \<^verbatim>\<open>{PARCEL: "N/A"}\<close> no
  tax-lot candidate resolves, the parcel-id candidate \<^verbatim>\<open>PARCEL\<close> resolves, and the tax
  lot is \<^verbatim>\<open>"N/A"\<close>.
\<close>

theorem taxLot_literal_NA:
  "filter (resolves exampleRuntime [(''PARCEL'', JStr ''N/A'')]) FIELD_MAP_taxLot = []
   \<and> filter (resolves exampleRuntime [(''PARCEL'', JStr ''N/A'')]) FIELD_MAP_parcelId
       = [''PARCEL'']
   \<and> parcelId (normalizeParcel exampleRuntime [(''PARCEL'', JStr ''N/A'')]) = JStr ''N/A''
   \<and> taxLot (normalizeParcel exampleRuntime [(''PARCEL'', JStr ''N/A'')]) = JStr ''N/A''"
  by (simp add: normalizeParcel_fields FIELD_MAP_taxLot_def FIELD_MAP_parcelId_def
      resolves_def matching_def bag_eval)

text \<open>
  Claim C10, as the script has it. The tax lot falls back to the parcel id already
  resolved: for every bag in which none of the tax-lot candidates resolves, the
  Property's \<^verbatim>\<open>taxLot\<close> equals its \<^verbatim>\<open>parcelId\<close>; it is \<^verbatim>\<open>"N/A"\<close> when the parcel-id
  candidates do not resolve either, and the resolved parcel-id value, a present value of
  the bag, when one of them does. So it is \<^verbatim>\<open>"N/A"\<close> exactly when the parcel-id candidates
  are all absent or the parcel-id value they resolve to is itself the text \<^verbatim>\<open>"N/A"\<close>.
\<close>

theorem taxLot_falls_back_to_parcelId:
  assumes "\<forall>key \<in> set FIELD_MAP_taxLot. \<not> resolves rt attrs key"
  shows "taxLot (normalizeParcel rt attrs) = parcelId (normalizeParcel rt attrs)
     \<and> ((\<forall>key \<in> set FIELD_MAP_parcelId. \<not> resolves rt attrs key) \<longrightarrow>
          taxLot (normalizeParcel rt attrs) = JStr ''N/A'')
     \<and> ((\<exists>key \<in> set FIELD_MAP_parcelId. resolves rt attrs key) \<longrightarrow>
          taxLot (normalizeParcel rt attrs) \<in> snd ` set attrs
          \<and> present (taxLot (normalizeParcel rt attrs))
          \<and> taxLot (normalizeParcel rt attrs)
              = resolveField_spec rt attrs FIELD_MAP_parcelId JNull)
     \<and> ((taxLot (normalizeParcel rt attrs) = JStr ''N/A'') =
          ((\<forall>key \<in> set FIELD_MAP_parcelId. \<not> resolves rt attrs key)
           \<or> resolveField_spec rt attrs FIELD_MAP_parcelId JNull = JStr ''N/A''))"
proof -
  let ?p = "normalizeParcel rt attrs"
  have pid_defined: "getField rt attrs FIELD_MAP_parcelId (JStr ''N/A'') \<noteq> JUndefined"
    by (rule getField_defined)
  have eq: "taxLot ?p = parcelId ?p"
    unfolding normalizeParcel_fields
    using getField_unresolved [OF FIELD_MAP_dataFieldNames(13) assms] pid_defined by simp
  have na: "parcelId ?p = JStr ''N/A''"
    if "\<forall>key \<in> set FIELD_MAP_parcelId. \<not> resolves rt attrs key"
    unfolding normalizeParcel_fields
    using getField_unresolved [OF FIELD_MAP_dataFieldNames(12) that] by simp
  have bag: "parcelId ?p \<in> snd ` set attrs \<and> present (parcelId ?p)"
    if "\<exists>key \<in> set FIELD_MAP_parcelId. resolves rt attrs key"
    unfolding normalizeParcel_fields
    using FIELD_MAP_dataFieldNames(12) that by (rule getField_resolved)
  have spec: "parcelId ?p = resolveField_spec rt attrs FIELD_MAP_parcelId JNull"
    if "\<exists>key \<in> set FIELD_MAP_parcelId. resolves rt attrs key"
    unfolding normalizeParcel_fields getField_refines [OF FIELD_MAP_dataFieldNames(12)]
    using that by (rule resolveField_spec_resolved)
  have absent_spec: "resolveField_spec rt attrs FIELD_MAP_parcelId JNull = JNull"
    if "\<forall>key \<in> set FIELD_MAP_parcelId. \<not> resolves rt attrs key"
  proof -
    from that have "List.find (resolves rt attrs) FIELD_MAP_parcelId = None"
      by (simp add: find_None_iff)
    then show ?thesis
      by (simp add: resolveField_spec_def)
  qed
  show ?thesis
  proof (cases "\<exists>key \<in> set FIELD_MAP_parcelId. resolves rt attrs key")
    case True
    with eq bag [OF True] spec [OF True] show ?thesis
      by auto
  next
    case False
    then have none: "\<forall>key \<in> set FIELD_MAP_parcelId. \<not> resolves rt attrs key"
      by simp
    with eq na [OF none] absent_spec [OF none] show ?thesis
      by auto
  qed
qed

theorem taxLot_falls_back_to_parcelId_witness:
  "filter (resolves exampleRuntime [(''Parcel_Id'', JStr ''1703250000100'')]) FIELD_MAP_taxLot
     = []
   \<and> taxLot (normalizeParcel exampleRuntime [(''Parcel_Id'', JStr ''1703250000100'')])
       = JStr ''1703250000100''
   \<and> parcelId (normalizeParcel exampleRuntime [(''Parcel_Id'', JStr ''1703250000100'')])
       = JStr ''1703250000100''"
proof -
  have none: "\<forall>key \<in> set FIELD_MAP_taxLot.
      \<not> resolves exampleRuntime [(''Parcel_Id'', JStr ''1703250000100'')] key"
    by (simp add: FIELD_MAP_taxLot_def resolves_def matching_def bag_eval)
  have pid: "parcelId (normalizeParcel exampleRuntime [(''Parcel_Id'', JStr ''1703250000100'')])
       = JStr ''1703250000100''"
    by (simp add: normalizeParcel_fields FIELD_MAP_parcelId_def bag_eval)
  have "taxLot (normalizeParcel exampleRuntime [(''Parcel_Id'', JStr ''1703250000100'')])
       = parcelId (normalizeParcel exampleRuntime [(''Parcel_Id'', JStr ''1703250000100'')])"
    using taxLot_falls_back_to_parcelId [OF none] by blast
  with none pid show ?thesis
    by (simp add: filter_empty_conv)
qed

subsection \<open>The taxlot sequencer\<close>

lemma attemptReason_firstFeature:
  "(attemptReason outcome = None) = (firstFeature outcome \<noteq> None)"
  by (auto simp: attemptReason_def firstFeature_def
      split: sum.splits option.splits list.splits)

lemma taxlotsLoop_failure_step:
  assumes "attemptReason (net calls (TaxlotQuery endpoint lat lng)) = Some reason"
  shows "taxlotsLoop rt net lat lng (endpoint # rest) errors calls =
           taxlotsLoop rt net lat lng rest (errors @ [endpoint @ '': '' @ reason])
             (calls @ [TaxlotQuery endpoint lat lng])"
  using assms
  by (auto simp: attemptReason_def fetchWithTimeout_def
      split: sum.splits option.splits list.splits if_splits)

lemma taxlotsLoop_success_step:
  assumes "firstFeature (net calls (TaxlotQuery endpoint lat lng)) = Some feat"
  shows "taxlotsLoop rt net lat lng (endpoint # rest) errors calls =
           (Some (normalizeParcel rt (attrsOf feat), geometry feat), errors,
            calls @ [TaxlotQuery endpoint lat lng])"
  using assms
  by (auto simp: firstFeature_def fetchWithTimeout_def
      split: sum.splits option.splits list.splits if_splits)

lemma taxlotsLoop_all_fail:
  assumes "length reasons = length endpoints"
    and "\<forall>i < length endpoints.
           attemptReason
             (net (calls @ map (\<lambda>e. TaxlotQuery e lat lng) (take i endpoints))
                (TaxlotQuery (endpoints ! i) lat lng))
           = Some (reasons ! i)"
  shows "taxlotsLoop rt net lat lng endpoints errors calls =
           (None, errors @ map2 (\<lambda>e r. e @ '': '' @ r) endpoints reasons,
            calls @ map (\<lambda>e. TaxlotQuery e lat lng) endpoints)"
  using assms
proof (induction endpoints arbitrary: reasons errors calls)
  case Nil
  then show ?case by simp
next
  case (Cons e es)
  from Cons.prems(1) obtain r rs where rs: "reasons = r # rs" "length rs = length es"
    by (cases reasons) auto
  have first: "attemptReason (net calls (TaxlotQuery e lat lng)) = Some r"
    using Cons.prems(2) rs by force
  have later: "\<forall>i < length es.
      attemptReason
        (net ((calls @ [TaxlotQuery e lat lng]) @ map (\<lambda>e. TaxlotQuery e lat lng) (take i es))
           (TaxlotQuery (es ! i) lat lng))
      = Some (rs ! i)"
  proof (intro allI impI)
    fix i
    assume "i < length es"
    then have "Suc i < length (e # es)" by simp
    from Cons.prems(2) [rule_format, OF this] rs show
      "attemptReason
        (net ((calls @ [TaxlotQuery e lat lng]) @ map (\<lambda>e. TaxlotQuery e lat lng) (take i es))
           (TaxlotQuery (es ! i) lat lng))
      = Some (rs ! i)"
      by simp
  qed
  show ?case
    unfolding taxlotsLoop_failure_step [where net = net and calls = calls, OF first]
      Cons.IH [OF rs(2) later] rs(1)
    by simp
qed

text \<open>
  Claim C5. When every endpoint of the list fails or comes back empty (a rejected or
  timed-out fetch, a status that is not ok, a body that does not parse, no feature),
  \<^verbatim>\<open>tryIdentifyFromTaxlots\<close> returns \<^verbatim>\<open>null\<close> as a value, and its \<^verbatim>\<open>errors\<close> array holds
  exactly one entry \<^verbatim>\<open>"<endpoint>: <reason>"\<close> per endpoint, in the order of the list; each
  endpoint was requested once, in that order. The outcome of the \<open>i\<close>-th attempt is what
  the network answers after the \<open>i\<close> requests before it.
\<close>

theorem tryIdentifyFromTaxlots_exhausted:
  assumes "length reasons = length (TAXLOT_ENDPOINTS cfg)"
    and "\<forall>i < length (TAXLOT_ENDPOINTS cfg).
           attemptReason
             (net (calls @ map (\<lambda>e. TaxlotQuery e lat lng) (take i (TAXLOT_ENDPOINTS cfg)))
                (TaxlotQuery (TAXLOT_ENDPOINTS cfg ! i) lat lng))
           = Some (reasons ! i)"
  shows "tryIdentifyFromTaxlots rt net cfg lat lng calls =
           (None, map2 (\<lambda>e r. e @ '': '' @ r) (TAXLOT_ENDPOINTS cfg) reasons,
            calls @ map (\<lambda>e. TaxlotQuery e lat lng) (TAXLOT_ENDPOINTS cfg))
         \<and> length (fst (snd (tryIdentifyFromTaxlots rt net cfg lat lng calls)))
             = length (TAXLOT_ENDPOINTS cfg)"
  unfolding tryIdentifyFromTaxlots_def taxlotsLoop_all_fail [OF assms]
  using assms(1) by simp

theorem tryIdentifyFromTaxlots_exhausted_witness:
  "tryIdentifyFromTaxlots exampleRuntime netAllFail
     (CONFIG \<lparr> TAXLOT_ENDPOINTS := [''A'', ''B'', ''C''] \<rparr>) (Fin 44) (Fin (- 123)) [] =
     (None,
      [''A: timeout'', ''B: HTTP 500'', ''C: no features at this location''],
      [TaxlotQuery ''A'' (Fin 44) (Fin (- 123)), TaxlotQuery ''B'' (Fin 44) (Fin (- 123)),
       TaxlotQuery ''C'' (Fin 44) (Fin (- 123))])"
proof -
  let ?cfg = "CONFIG \<lparr> TAXLOT_ENDPOINTS := [''A'', ''B'', ''C''] \<rparr>"
  let ?reasons = "[''timeout'', ''HTTP 500'', ''no features at this location'']"
  have len: "length ?reasons = length (TAXLOT_ENDPOINTS ?cfg)"
    by simp
  have fails: "\<forall>i < length (TAXLOT_ENDPOINTS ?cfg).
           attemptReason
             (netAllFail ([] @ map (\<lambda>e. TaxlotQuery e (Fin 44) (Fin (- 123)))
                              (take i (TAXLOT_ENDPOINTS ?cfg)))
                (TaxlotQuery (TAXLOT_ENDPOINTS ?cfg ! i) (Fin 44) (Fin (- 123))))
           = Some (?reasons ! i)"
  proof (intro allI impI)
    fix i
    assume "i < length (TAXLOT_ENDPOINTS ?cfg)"
    then have "i < 3" by simp
    then consider "i = 0" | "i = 1" | "i = 2" by linarith
    then show "attemptReason
             (netAllFail ([] @ map (\<lambda>e. TaxlotQuery e (Fin 44) (Fin (- 123)))
                              (take i (TAXLOT_ENDPOINTS ?cfg)))
                (TaxlotQuery (TAXLOT_ENDPOINTS ?cfg ! i) (Fin 44) (Fin (- 123))))
           = Some (?reasons ! i)"
    proof cases
      case 1
      then show ?thesis
        by (simp add: attemptReason_def netAllFail_def)
    next
      case 2
      then show ?thesis
        by (simp add: attemptReason_def netAllFail_def natToString_eval)
    next
      case 3
      then show ?thesis
        by (simp add: attemptReason_def netAllFail_def featuresReply_def)
    qed
  qed
  show ?thesis
    using tryIdentifyFromTaxlots_exhausted [OF len fails, of exampleRuntime]
    by simp
qed

text \<open>
  Claim C4. The sequencer stops at the first success: for an endpoint list
  \<^verbatim>\<open>[A, B, C]\<close> where the attempt on \<open>A\<close> fails and the attempt on \<open>B\<close> has a feature,
  \<^verbatim>\<open>tryIdentifyFromTaxlots\<close> returns the Property and geometry of \<open>B\<close>'s feature, with the
  one failure reason of \<open>A\<close>, after exactly two requests: \<open>C\<close> is never requested (among
  the requests of the call, the number of those to \<open>C\<close> is zero).
\<close>

theorem tryIdentifyFromTaxlots_short_circuits:
  assumes "TAXLOT_ENDPOINTS cfg = [A, B, C]"
    and "attemptReason (net calls (TaxlotQuery A lat lng)) = Some reason"
    and "firstFeature (net (calls @ [TaxlotQuery A lat lng]) (TaxlotQuery B lat lng)) = Some feat"
  shows "tryIdentifyFromTaxlots rt net cfg lat lng calls =
           (Some (normalizeParcel rt (attrsOf feat), geometry feat),
            [A @ '': '' @ reason],
            calls @ [TaxlotQuery A lat lng, TaxlotQuery B lat lng])
         \<and> (C \<noteq> A \<and> C \<noteq> B \<longrightarrow>
              count_list
                (drop (length calls) (snd (snd (tryIdentifyFromTaxlots rt net cfg lat lng calls))))
                (TaxlotQuery C lat lng) = 0)"
proof -
  have run: "tryIdentifyFromTaxlots rt net cfg lat lng calls =
           (Some (normalizeParcel rt (attrsOf feat), geometry feat),
            [A @ '': '' @ reason],
            calls @ [TaxlotQuery A lat lng, TaxlotQuery B lat lng])"
    unfolding tryIdentifyFromTaxlots_def assms(1)
      taxlotsLoop_failure_step [where net = net and calls = calls, OF assms(2)]
      taxlotsLoop_success_step
        [where net = net and calls = "calls @ [TaxlotQuery A lat lng]", OF assms(3)]
    by simp
  show ?thesis
    unfolding run by simp
qed

theorem tryIdentifyFromTaxlots_short_circuits_witness:
  "attemptReason (netABC [] (TaxlotQuery ''A'' (Fin 44) (Fin (- 123)))) = Some ''Failed to fetch''
   \<and> tryIdentifyFromTaxlots exampleRuntime netABC
        (CONFIG \<lparr> TAXLOT_ENDPOINTS := [''A'', ''B'', ''C''] \<rparr>) (Fin 44) (Fin (- 123)) [] =
       (Some (normalizeParcel exampleRuntime [(''OWNER'', JStr ''B'')], None),
        [''A: Failed to fetch''],
        [TaxlotQuery ''A'' (Fin 44) (Fin (- 123)), TaxlotQuery ''B'' (Fin 44) (Fin (- 123))])
   \<and> count_list
        (snd (snd (tryIdentifyFromTaxlots exampleRuntime netABC
           (CONFIG \<lparr> TAXLOT_ENDPOINTS := [''A'', ''B'', ''C''] \<rparr>) (Fin 44) (Fin (- 123)) [])))
        (TaxlotQuery ''C'' (Fin 44) (Fin (- 123))) = 0"
proof -
  let ?cfg = "CONFIG \<lparr> TAXLOT_ENDPOINTS := [''A'', ''B'', ''C''] \<rparr>"
  let ?feat = "\<lparr> attributes = Some [(''OWNER'', JStr ''B'')], properties = None,
                  geometry = None \<rparr>"
  have eps: "TAXLOT_ENDPOINTS ?cfg = [''A'', ''B'', ''C'']"
    by simp
  have a: "attemptReason (netABC [] (TaxlotQuery ''A'' (Fin 44) (Fin (- 123))))
             = Some ''Failed to fetch''"
    by (simp add: attemptReason_def netABC_def)
  have b: "firstFeature (netABC ([] @ [TaxlotQuery ''A'' (Fin 44) (Fin (- 123))])
             (TaxlotQuery ''B'' (Fin 44) (Fin (- 123)))) = Some ?feat"
    by (simp add: firstFeature_def netABC_def featuresReply_def)
  show ?thesis
    using tryIdentifyFromTaxlots_short_circuits [OF eps a b, of exampleRuntime] a
    by (simp add: attrsOf_def)
qed

subsection \<open>The parcel resolution pipeline\<close>

lemma CONFIG_endpoints: "TAXLOT_ENDPOINTS CONFIG = [LANE_TAXLOTS_URL]"
  by (simp add: CONFIG_def LANE_TAXLOTS_URL_def EUGENE_TAXLOTS_URL_def STATEWIDE_TAXLOTS_URL_def)

lemma CONFIG_oregon: "OREGON_GEOCODE_URL CONFIG = []"
  by (simp add: CONFIG_def)

lemma buildNAProperty_fields:
  "parcelId (buildNAProperty rt lat lng) = JStr ''N/A''"
  "fullAddress (buildNAProperty rt lat lng) =
     ''Coordinates: '' @ toFixed rt 6 lat @ '', '' @ toFixed rt 6 lng"
  by (simp_all add: buildNAProperty_def Let_def)

lemma toFixed_example_lat:
  "toFixed rt 6 (Fin (6209824374996827 / 140737488355328)) = ''44.123456''"
  by (simp add: toFixed_eval)

lemma toFixed_example_lng:
  "toFixed rt 6 (Fin (- 8701399280911745 / 70368744177664)) = ''-123.654321''"
  by (simp add: toFixed_eval)

lemma toFixed_example_lng_normal:
  "toFixed rt 6 (Fin (- (8701399280911745 / 70368744177664))) = ''-123.654321''"
  by (simp add: toFixed_eval)

lemma identifyParcelAt_placeholder:
  assumes "tryIdentifyFromTaxlots rt net cfg lat lng (fetched st) = (None, errors1, calls1)"
    and "tryReverseGeocode rt net cfg lat lng calls1 = (None, errors2, calls2)"
  shows "identifyParcelAt rt net cfg lat lng st =
           Inr (st \<lparr> highlightLayer := [],
                     currentProperty := Some (buildNAProperty rt lat lng),
                     toasts := toasts st @
                       [(''Limited data (parcel records unavailable). Showing best available info.'',
                         ''error'')],
                     fetched := calls2 \<rparr>)"
  by (simp add: identifyParcelAt_def assms highlightCoords_def)

lemma identifyParcelAt_placeholder_example:
  "map_sum id (map_option fullAddress \<circ> currentProperty)
     (identifyParcelAt rt netDown CONFIG (Fin (6209824374996827 / 140737488355328))
        (Fin (- 8701399280911745 / 70368744177664)) st)
   = Inr (Some ''Coordinates: 44.123456, -123.654321'')"
proof -
  let ?lat = "Fin (6209824374996827 / 140737488355328)"
  let ?lng = "Fin (- 8701399280911745 / 70368744177664)"
  have t: "tryIdentifyFromTaxlots rt netDown CONFIG ?lat ?lng (fetched st) =
      (None, [LANE_TAXLOTS_URL @ '': Failed to fetch''],
       fetched st @ [TaxlotQuery LANE_TAXLOTS_URL ?lat ?lng])"
    by (simp add: tryIdentifyFromTaxlots_def CONFIG_endpoints fetchWithTimeout_def netDown_def)
  have r: "tryReverseGeocode rt netDown CONFIG ?lat ?lng
             (fetched st @ [TaxlotQuery LANE_TAXLOTS_URL ?lat ?lng]) =
      (None, [''Esri reverse: Failed to fetch''],
       fetched st @ [TaxlotQuery LANE_TAXLOTS_URL ?lat ?lng,
                     ReverseGeocode (ESRI_GEOCODE_URL CONFIG) ?lat ?lng])"
    by (simp add: tryReverseGeocode_def reverseAttempt_def CONFIG_oregon fetchWithTimeout_def
        netDown_def)
  show ?thesis
    unfolding identifyParcelAt_placeholder [OF t r]
    by (simp add: buildNAProperty_fields toFixed_example_lat toFixed_example_lng_normal)
qed

lemma identifyParcelAt_raises_iff:
  "(\<exists>err. identifyParcelAt rt net cfg lat lng st = Inl err) =
   (\<exists>p g errors calls'.
      tryIdentifyFromTaxlots rt net cfg lat lng (fetched st) = (Some (p, Some g), errors, calls')
      \<and> rings g = Some [])"
proof (cases "tryIdentifyFromTaxlots rt net cfg lat lng (fetched st)")
  case (fields result errors1 calls1)
  show ?thesis
  proof (cases result)
    case None
    then show ?thesis
      using fields
      by (cases "tryReverseGeocode rt net cfg lat lng calls1")
         (simp add: identifyParcelAt_def highlightCoords_def)
  next
    case (Some pg)
    then show ?thesis
      using fields
      by (cases pg)
         (auto simp: identifyParcelAt_def highlightCoords_def
            split: option.splits list.splits)
  qed
qed

text \<open>
  Claim C1 says that \<^verbatim>\<open>identifyParcelAt\<close> always yields a Property and never lets a
  failure escape. On the path the claim names (no taxlot result, no reverse-geocode
  result) it does, with the placeholder and the address string claimed
  (\<open>identifyParcelAt_placeholder\<close>, \<open>identifyParcelAt_placeholder_example\<close>). Over replies
  of the shape the pipeline reads, an exception escapes in exactly one case
  (\<open>identifyParcelAt_raises_iff\<close>): a taxlot feature whose geometry has an empty
  \<^verbatim>\<open>rings\<close> array. The highlight step, outside every \<^verbatim>\<open>try\<close> block, then calls \<^verbatim>\<open>map\<close> on
  \<^verbatim>\<open>geometry.rings[0]\<close>, which is \<^verbatim>\<open>undefined\<close>. At such a reply the call raises a
  \<^verbatim>\<open>TypeError\<close> and no Property is set.
\<close>

theorem identifyParcelAt_empty_rings_raises:
  "identifyParcelAt exampleRuntime netEmptyRings CONFIG
     (Fin (6209824374996827 / 140737488355328)) (Fin (- 8701399280911745 / 70368744177664))
     initialState
   = Inl (JsError ''TypeError'' ''geometry.rings[0] is undefined'')"
proof -
  let ?lat = "Fin (6209824374996827 / 140737488355328)"
  let ?lng = "Fin (- 8701399280911745 / 70368744177664)"
  have "tryIdentifyFromTaxlots exampleRuntime netEmptyRings CONFIG ?lat ?lng (fetched initialState)
      = (Some (normalizeParcel exampleRuntime [(''OWNER'', JStr ''Smith'')],
               Some \<lparr> rings = Some [] \<rparr>),
         [], [TaxlotQuery LANE_TAXLOTS_URL ?lat ?lng])"
    by (simp add: tryIdentifyFromTaxlots_def CONFIG_endpoints fetchWithTimeout_def
        netEmptyRings_def featuresReply_def attrsOf_def initialState_def)
  then show ?thesis
    by (simp add: identifyParcelAt_def highlightCoords_def)
qed

subsection \<open>The highlight\<close>

text \<open>
  Claim C6. When the spatial query succeeds with a polygon geometry, the polygon put on
  the highlight layer is the first ring of the reply with the two axes of every point
  swapped: ring coordinates \<^verbatim>\<open>[[x1, y1], [x2, y2]]\<close> give the highlight coordinates
  \<^verbatim>\<open>[[y1, x1], [y2, x2]]\<close>, latitude first.
\<close>

theorem highlight_swaps_axes:
  assumes "tryIdentifyFromTaxlots rt net cfg lat lng (fetched st) = (Some (p, Some g), errors, calls')"
    and "rings g = Some (ring # others)"
  shows "identifyParcelAt rt net cfg lat lng st =
           Inr (st \<lparr> highlightLayer := [map swapXY ring],
                     currentProperty := Some p,
                     toasts := toasts st @ [(''Property loaded'', ''success'')],
                     fetched := calls' \<rparr>)
         \<and> (ring = [[x1, y1], [x2, y2]] \<longrightarrow> map swapXY ring = [[y1, x1], [y2, x2]])"
  by (simp add: identifyParcelAt_def assms highlightCoords_def swapXY_def element_def)

theorem highlight_swaps_axes_witness:
  "identifyParcelAt exampleRuntime netPolygon CONFIG (Fin 44) (Fin (- 123)) initialState =
     Inr (initialState
            \<lparr> highlightLayer := [[[JNum (Fin 2), JNum (Fin 1)], [JNum (Fin 4), JNum (Fin 3)]]],
              currentProperty := Some (normalizeParcel exampleRuntime [(''OWNER'', JStr ''Smith'')]),
              toasts := [(''Property loaded'', ''success'')],
              fetched := [TaxlotQuery LANE_TAXLOTS_URL (Fin 44) (Fin (- 123))] \<rparr>)"
proof -
  let ?g = "\<lparr> rings = Some [[[JNum (Fin 1), JNum (Fin 2)], [JNum (Fin 3), JNum (Fin 4)]]] \<rparr>"
  have t: "tryIdentifyFromTaxlots exampleRuntime netPolygon CONFIG (Fin 44) (Fin (- 123))
             (fetched initialState)
      = (Some (normalizeParcel exampleRuntime [(''OWNER'', JStr ''Smith'')], Some ?g),
         [], [TaxlotQuery LANE_TAXLOTS_URL (Fin 44) (Fin (- 123))])"
    by (simp add: tryIdentifyFromTaxlots_def CONFIG_endpoints fetchWithTimeout_def
        netPolygon_def featuresReply_def attrsOf_def initialState_def)
  have r: "rings ?g = Some ([[JNum (Fin 1), JNum (Fin 2)], [JNum (Fin 3), JNum (Fin 4)]] # [])"
    by simp
  show ?thesis
    using highlight_swaps_axes [OF t r, of "JNum (Fin 1)" "JNum (Fin 2)" "JNum (Fin 3)" "JNum (Fin 4)"]
    by (simp add: initialState_def)
qed

subsection \<open>Address search\<close>

lemma searchAttempt_no_candidates:
  assumes "\<not> yieldsCandidates (net calls (FindAddressCandidates url query))"
  shows "\<exists>reason. searchAttempt net label url query errors calls =
           (None, errors @ [label @ '': '' @ reason],
            calls @ [FindAddressCandidates url query])"
  using assms
  by (auto simp: searchAttempt_def yieldsCandidates_def fetchWithTimeout_def
      split: sum.splits if_splits)

text \<open>
  Claim C8. For every query text, when no geocoder that is tried yields a candidate (its
  fetch is rejected or times out, its status is not ok, its body does not parse, a
  candidate has no location, or the candidate list is empty), \<^verbatim>\<open>searchAddresses\<close> returns
  the empty list, as a value: every exception is caught inside the function, a rejected
  fetch included. Its \<^verbatim>\<open>errors\<close> array has one entry per geocoder tried: the Esri one, and
  the Oregon one when its URL is configured.
\<close>

theorem searchAddresses_exhausted_is_empty:
  assumes "\<not> yieldsCandidates (net calls (FindAddressCandidates (ESRI_GEOCODE_URL cfg) query))"
    and "OREGON_GEOCODE_URL cfg \<noteq> [] \<longrightarrow>
         \<not> yieldsCandidates
             (net (calls @ [FindAddressCandidates (ESRI_GEOCODE_URL cfg) query])
                (FindAddressCandidates (OREGON_GEOCODE_URL cfg) query))"
  shows "fst (searchAddresses net cfg query calls) = []
         \<and> length (fst (snd (searchAddresses net cfg query calls)))
             = (if OREGON_GEOCODE_URL cfg \<noteq> [] then 2 else 1)"
proof -
  obtain r1 where first:
    "searchAttempt net ''Esri geocoder'' (ESRI_GEOCODE_URL cfg) query [] calls =
       (None, [] @ [''Esri geocoder'' @ '': '' @ r1],
        calls @ [FindAddressCandidates (ESRI_GEOCODE_URL cfg) query])"
    using searchAttempt_no_candidates [where net = net and calls = calls, OF assms(1)]
    by blast
  show ?thesis
  proof (cases "OREGON_GEOCODE_URL cfg \<noteq> []")
    case True
    with assms(2) have second: "\<not> yieldsCandidates
        (net (calls @ [FindAddressCandidates (ESRI_GEOCODE_URL cfg) query])
           (FindAddressCandidates (OREGON_GEOCODE_URL cfg) query))"
      by simp
    obtain r2 where
      "searchAttempt net ''Oregon geocoder'' (OREGON_GEOCODE_URL cfg) query
         ([] @ [''Esri geocoder'' @ '': '' @ r1])
         (calls @ [FindAddressCandidates (ESRI_GEOCODE_URL cfg) query]) =
       (None, ([] @ [''Esri geocoder'' @ '': '' @ r1]) @ [''Oregon geocoder'' @ '': '' @ r2],
        (calls @ [FindAddressCandidates (ESRI_GEOCODE_URL cfg) query])
          @ [FindAddressCandidates (OREGON_GEOCODE_URL cfg) query])"
      using searchAttempt_no_candidates
        [where net = net and calls = "calls @ [FindAddressCandidates (ESRI_GEOCODE_URL cfg) query]",
         OF second]
      by blast
    with first True show ?thesis
      by (simp add: searchAddresses_def)
  next
    case False
    with first show ?thesis
      by (simp add: searchAddresses_def)
  qed
qed

theorem searchAddresses_exhausted_is_empty_witness:
  "searchAddresses netNoCandidates
     (CONFIG \<lparr> OREGON_GEOCODE_URL := ''https://gis.example.org/GeocodeServer'' \<rparr>)
     ''125 E 8th Ave'' []
   = ([], [''Esri geocoder: no candidates'', ''Oregon geocoder: HTTP 503''],
      [FindAddressCandidates (ESRI_GEOCODE_URL CONFIG) ''125 E 8th Ave'',
       FindAddressCandidates ''https://gis.example.org/GeocodeServer'' ''125 E 8th Ave''])"
proof -
  let ?cfg = "CONFIG \<lparr> OREGON_GEOCODE_URL := ''https://gis.example.org/GeocodeServer'' \<rparr>"
  have esri: "ESRI_GEOCODE_URL ?cfg = ESRI_GEOCODE_URL CONFIG"
    by simp
  have oregon: "OREGON_GEOCODE_URL ?cfg = ''https://gis.example.org/GeocodeServer''"
    by simp
  have differ: "''https://gis.example.org/GeocodeServer'' \<noteq> ESRI_GEOCODE_URL CONFIG"
    by (simp add: CONFIG_def)
  have a1: "searchAttempt netNoCandidates ''Esri geocoder'' (ESRI_GEOCODE_URL CONFIG)
              ''125 E 8th Ave'' [] []
      = (None, [''Esri geocoder: no candidates''],
         [FindAddressCandidates (ESRI_GEOCODE_URL CONFIG) ''125 E 8th Ave''])"
    by (simp add: searchAttempt_def fetchWithTimeout_def netNoCandidates_def
        normalizeCandidates_def)
  have a2: "searchAttempt netNoCandidates ''Oregon geocoder''
              ''https://gis.example.org/GeocodeServer'' ''125 E 8th Ave''
              [''Esri geocoder: no candidates'']
              [FindAddressCandidates (ESRI_GEOCODE_URL CONFIG) ''125 E 8th Ave'']
      = (None, [''Esri geocoder: no candidates'', ''Oregon geocoder: HTTP 503''],
         [FindAddressCandidates (ESRI_GEOCODE_URL CONFIG) ''125 E 8th Ave'',
          FindAddressCandidates ''https://gis.example.org/GeocodeServer'' ''125 E 8th Ave''])"
    using differ
    by (simp add: searchAttempt_def fetchWithTimeout_def netNoCandidates_def natToString_eval)
  have run: "searchAddresses netNoCandidates ?cfg ''125 E 8th Ave'' []
      = ([], [''Esri geocoder: no candidates'', ''Oregon geocoder: HTTP 503''],
         [FindAddressCandidates (ESRI_GEOCODE_URL CONFIG) ''125 E 8th Ave'',
          FindAddressCandidates ''https://gis.example.org/GeocodeServer'' ''125 E 8th Ave''])"
    unfolding searchAddresses_def esri oregon a1 by (simp add: a2)
  have h1: "\<not> yieldsCandidates
      (netNoCandidates [] (FindAddressCandidates (ESRI_GEOCODE_URL ?cfg) ''125 E 8th Ave''))"
    unfolding esri
    by (simp add: yieldsCandidates_def netNoCandidates_def normalizeCandidates_def)
  have h2: "OREGON_GEOCODE_URL ?cfg \<noteq> [] \<longrightarrow>
      \<not> yieldsCandidates
          (netNoCandidates ([] @ [FindAddressCandidates (ESRI_GEOCODE_URL ?cfg) ''125 E 8th Ave''])
             (FindAddressCandidates (OREGON_GEOCODE_URL ?cfg) ''125 E 8th Ave''))"
    unfolding esri oregon using differ
    by (simp add: yieldsCandidates_def netNoCandidates_def)
  from searchAddresses_exhausted_is_empty [OF h1 h2] run show ?thesis
    by simp
qed

subsection \<open>Saving\<close>

text \<open>
  Claim C7. Saving a Property whose uniqueness key already occurs in the saved list is
  rejected: the call shows the toast \<^verbatim>\<open>"Property already in your list"\<close> and changes
  nothing else. The saved list has the same elements and the same length, and nothing is
  written to \<^verbatim>\<open>localStorage\<close>.
\<close>

theorem saveCurrentProperty_rejects_duplicate:
  assumes "currentProperty st = Some p"
    and "\<exists>s \<in> set (saved st). uniqueKey s = uniqueKey p"
  shows "saveCurrentProperty now isoNow st =
           st \<lparr> toasts := toasts st @ [(''Property already in your list'', ''error'')] \<rparr>
         \<and> saved (saveCurrentProperty now isoNow st) = saved st
         \<and> length (saved (saveCurrentProperty now isoNow st)) = length (saved st)
         \<and> storage (saveCurrentProperty now isoNow st) = storage st"
proof -
  have "isCurrentSaved st"
    using assms by (simp add: isCurrentSaved_def list_ex_iff)
  then have "saveCurrentProperty now isoNow st =
           st \<lparr> toasts := toasts st @ [(''Property already in your list'', ''error'')] \<rparr>"
    using assms(1) by (simp add: saveCurrentProperty_def)
  then show ?thesis by simp
qed

lemma saveCurrentProperty_new:
  assumes "currentProperty st = Some p"
    and "\<forall>s \<in> set (saved st). uniqueKey s \<noteq> uniqueKey p"
  shows "saved (saveCurrentProperty now isoNow st) =
           saved st @ [(property.extend p (saved_item.fields now)) \<lparr> savedAt := JStr isoNow \<rparr>]
         \<and> storage (saveCurrentProperty now isoNow st) = Some (saved (saveCurrentProperty now isoNow st))"
proof -
  have "\<not> isCurrentSaved st"
    using assms by (simp add: isCurrentSaved_def list_ex_iff)
  then show ?thesis
    using assms(1) by (simp add: saveCurrentProperty_def Let_def)
qed

theorem saveCurrentProperty_rejects_duplicate_witness:
  "saved (saveCurrentProperty 1700000001000 ''2023-11-14T22:13:21.000Z''
     (saveCurrentProperty 1700000000000 ''2023-11-14T22:13:20.000Z''
        (initialState \<lparr> currentProperty := Some (normalizeParcel exampleRuntime []) \<rparr>)))
   = [(property.extend (normalizeParcel exampleRuntime []) (saved_item.fields 1700000000000))
        \<lparr> savedAt := JStr ''2023-11-14T22:13:20.000Z'' \<rparr>]
   \<and> storage (saveCurrentProperty 1700000001000 ''2023-11-14T22:13:21.000Z''
        (saveCurrentProperty 1700000000000 ''2023-11-14T22:13:20.000Z''
           (initialState \<lparr> currentProperty := Some (normalizeParcel exampleRuntime []) \<rparr>)))
     = storage (saveCurrentProperty 1700000000000 ''2023-11-14T22:13:20.000Z''
           (initialState \<lparr> currentProperty := Some (normalizeParcel exampleRuntime []) \<rparr>))"
proof -
  let ?p = "normalizeParcel exampleRuntime []"
  let ?st0 = "initialState \<lparr> currentProperty := Some ?p \<rparr>"
  let ?st1 = "saveCurrentProperty 1700000000000 ''2023-11-14T22:13:20.000Z'' ?st0"
  let ?item = "(property.extend ?p (saved_item.fields 1700000000000))
                 \<lparr> savedAt := JStr ''2023-11-14T22:13:20.000Z'' \<rparr>"
  have fresh: "\<forall>s \<in> set (saved ?st0). uniqueKey s \<noteq> uniqueKey ?p"
    by (simp add: initialState_def)
  have cur0: "currentProperty ?st0 = Some ?p"
    by simp
  have s1: "saved ?st1 = [?item]"
    using saveCurrentProperty_new [OF cur0 fresh] by (simp add: initialState_def)
  have cur1: "currentProperty ?st1 = Some ?p"
    by (simp add: saveCurrentProperty_def isCurrentSaved_def initialState_def Let_def)
  have dup: "\<exists>s \<in> set (saved ?st1). uniqueKey s = uniqueKey ?p"
    unfolding s1 by (simp add: property.extend_def)
  from saveCurrentProperty_rejects_duplicate [OF cur1 dup] s1 show ?thesis
    by simp
qed

end
